theory Spec2Isabelle
  imports Complex_Main
begin

section \<open>Python values, truthiness and errors\<close>

text \<open>
  The calculator of \<^verbatim>\<open>calculator_core.py\<close> works on Python floats. The embedding takes a
  float to be a \<^typ>\<open>real\<close>: every formula is read in exact arithmetic, and the decimal
  literals of the source (\<^verbatim>\<open>1.96\<close>, \<^verbatim>\<open>0.15\<close>) are the fractions they denote. The two
  formulas whose claims turn on rounding are embedded a second time in binary64
  arithmetic, further down. An exception of the source is the left injection of a sum.
\<close>

datatype py_error =
  StopIteration | KeyError | ZeroDivisionError | OverflowError | SolverError

text \<open>Float division \<^verbatim>\<open>a / b\<close>: Python raises on a zero divisor.\<close>

definition py_truediv :: "real \<Rightarrow> real \<Rightarrow> py_error + real" where
  "py_truediv a b = (if b = 0 then Inl ZeroDivisionError else Inr (a / b))"

text \<open>\<^verbatim>\<open>x or y\<close> on an optional float: \<^verbatim>\<open>None\<close> and \<^verbatim>\<open>0.0\<close> are both falsy.\<close>

definition truthy_float :: "real option \<Rightarrow> bool" where
  "truthy_float x = (case x of None \<Rightarrow> False | Some v \<Rightarrow> v \<noteq> 0)"

definition truthy_int :: "int option \<Rightarrow> bool" where
  "truthy_int x = (case x of None \<Rightarrow> False | Some v \<Rightarrow> v \<noteq> 0)"

text \<open>
  \<^verbatim>\<open>round(x, ndigits)\<close>: the nearest multiple of \<open>10\<^sup>-\<^sup>n\<close>, a tie going to the even
  neighbour.
\<close>

definition py_round :: "real \<Rightarrow> nat \<Rightarrow> real" where
  "py_round x ndigits =
     (let y = x * 10 ^ ndigits;
          f = \<lfloor>y\<rfloor>;
          d = y - of_int f
      in of_int (if d < 1 / 2 then f
                 else if 1 / 2 < d then f + 1
                 else if even f then f else f + 1) / 10 ^ ndigits)"

section \<open>Data model\<close>

text \<open>
  The dataclass \<^verbatim>\<open>SurveyParameters\<close>. The field \<^verbatim>\<open>power\<close> is \<open>power_target\<close> here, the
  name \<open>power\<close> being HOL's exponentiation. \<^verbatim>\<open>population_size\<close> is annotated \<^verbatim>\<open>int\<close>, and
  the only place that reads it tests its truthiness, which \<^verbatim>\<open>None\<close> passes through as
  well: the field is optional in the model. \<^verbatim>\<open>alpha\<close> and \<^verbatim>\<open>power\<close> are plain floats
  with defaults, so they always hold a value.
\<close>

record SurveyParameters =
  survey_type :: string
  population_size :: "int option"
  confidence_level :: int
  margin_error :: real
  avg_cluster_size :: int
  icc :: "real option"
  expected_prevalence :: real
  non_response_rate :: real
  effect_size :: "real option"
  alpha :: real
  power_target :: real

text \<open>
  The constructor call \<^verbatim>\<open>SurveyParameters(survey_type, population_size)\<close> with every other
  field at its declared default.
\<close>

definition default_parameters :: "string \<Rightarrow> int option \<Rightarrow> SurveyParameters" where
  "default_parameters st N =
     \<lparr> survey_type = st, population_size = N, confidence_level = 95,
       margin_error = 5 / 100, avg_cluster_size = 20, icc = None,
       expected_prevalence = 1 / 2, non_response_rate = 1 / 10,
       effect_size = None, alpha = 5 / 100, power_target = 8 / 10 \<rparr>"

text \<open>
  One entry of \<^verbatim>\<open>self.survey_profiles\<close>: a dictionary with the keys \<^verbatim>\<open>id\<close>, \<^verbatim>\<open>name\<close>,
  \<^verbatim>\<open>default_icc\<close>, \<^verbatim>\<open>default_cluster_size\<close> and an optional \<^verbatim>\<open>description\<close>.
\<close>

record SurveyProfile =
  profile_id :: string
  profile_name :: string
  default_icc :: real
  default_cluster_size :: int
  description :: "string option"

text \<open>The dictionary that \<^verbatim>\<open>calculate_sample\<close> returns; its key \<^verbatim>\<open>icc\<close> is \<open>icc_used\<close>.\<close>

record SampleSizeResult =
  base_sample_size :: int
  design_effect :: real
  icc_used :: real
  cluster_size :: int
  adjusted_sample_size :: int
  final_sample_size :: int
  power_sample_size :: "int option"
  effective_sample_size :: int

section \<open>The engine\<close>

text \<open>\<^verbatim>\<open>self.confidence_levels = {90: 1.645, 95: 1.96, 99: 2.576}\<close>\<close>

definition confidence_levels :: "int \<rightharpoonup> real" where
  "confidence_levels = [90 \<mapsto> 1645 / 1000, 95 \<mapsto> 196 / 100, 99 \<mapsto> 2576 / 1000]"

text \<open>The built-in list that \<^verbatim>\<open>load_survey_profiles\<close> falls back to.\<close>

definition builtin_profiles :: "SurveyProfile list" where
  "builtin_profiles =
     [\<lparr> profile_id = ''annual_agri'', profile_name = ''Annual Agriculture Survey'',
        default_icc = 15 / 100, default_cluster_size = 25,
        description = Some ''Crop area and production estimates'' \<rparr>]"

text \<open>
  \<^verbatim>\<open>load_survey_profiles\<close>: the argument is what reading and parsing the JSON file gave,
  \<open>None\<close> when either raised.
\<close>

definition load_survey_profiles :: "SurveyProfile list option \<Rightarrow> SurveyProfile list" where
  "load_survey_profiles file =
     (case file of Some ps \<Rightarrow> ps | None \<Rightarrow> builtin_profiles)"

definition calculate_deff :: "int \<Rightarrow> real \<Rightarrow> real" where
  "calculate_deff b rho = 1 + of_int (b - 1) * rho"

text \<open>
  \<^verbatim>\<open>_calculate_base_sample\<close>: the dictionary lookup raises \<^verbatim>\<open>KeyError\<close>, the division
  raises when \<^verbatim>\<open>margin_error**2\<close> is zero.
\<close>

definition calculate_base_sample :: "SurveyParameters \<Rightarrow> py_error + real" where
  "calculate_base_sample params =
     (case confidence_levels (confidence_level params) of
        None \<Rightarrow> Inl KeyError
      | Some Z \<Rightarrow>
          py_truediv (Z\<^sup>2 * expected_prevalence params * (1 - expected_prevalence params))
                     ((margin_error params)\<^sup>2))"

text \<open>\<^verbatim>\<open>_apply_fpc\<close>: \<^verbatim>\<open>n / (1 + (n - 1)/N) if N else n\<close>\<close>

definition apply_fpc :: "real \<Rightarrow> int option \<Rightarrow> py_error + real" where
  "apply_fpc n N =
     (if truthy_int N
      then (case py_truediv (n - 1) (of_int (the N)) of
              Inl e \<Rightarrow> Inl e
            | Inr q \<Rightarrow> py_truediv n (1 + q))
      else Inr n)"

text \<open>Line 71 of \<^verbatim>\<open>calculate_sample\<close>: \<^verbatim>\<open>final_n = n_fpc / (1 - params.non_response_rate)\<close>\<close>

definition inflate_non_response :: "real \<Rightarrow> real \<Rightarrow> py_error + real" where
  "inflate_non_response n_fpc r = py_truediv n_fpc (1 - r)"

text \<open>
  \<^verbatim>\<open>calculate_power\<close> hands its three arguments to the solver of an external library
  (\<^verbatim>\<open>TTestIndPower().solve_power\<close> of statsmodels), which is a parameter of the model: a
  function that returns a float or raises.
\<close>

type_synonym power_solver = "real \<Rightarrow> real \<Rightarrow> real \<Rightarrow> py_error + real"

definition calculate_power :: "power_solver \<Rightarrow> real \<Rightarrow> real \<Rightarrow> real \<Rightarrow> py_error + real" where
  "calculate_power solve_power es a pw = solve_power es a pw"

text \<open>A solver that answers \<open>v\<close> whatever it is asked, to run the engine on concrete inputs.\<close>

definition constant_solver :: "real \<Rightarrow> power_solver" where
  "constant_solver v es a pw = Inr v"

text \<open>
  The optional power analysis of \<^verbatim>\<open>calculate_sample\<close> (lines 74 to 80): \<open>None\<close> is the
  initial \<^verbatim>\<open>power_sample = None\<close>.
\<close>

definition power_analysis :: "power_solver \<Rightarrow> SurveyParameters \<Rightarrow> py_error + real option" where
  "power_analysis solve_power params =
     (if truthy_float (effect_size params)
      then (case calculate_power solve_power (the (effect_size params)) (alpha params)
                   (power_target params) of
              Inl e \<Rightarrow> Inl e
            | Inr v \<Rightarrow> Inr (Some v))
      else Inr None)"

text \<open>
  \<^verbatim>\<open>calculate_sample\<close>, in the order of the source: the profile (\<^verbatim>\<open>next\<close> on the exhausted
  generator raises \<^verbatim>\<open>StopIteration\<close>), the two \<^verbatim>\<open>or\<close> defaults, the design effect, the
  base sample, the correction, the inflation, the power analysis, and the dictionary.
\<close>

definition calculate_sample ::
  "power_solver \<Rightarrow> SurveyProfile list \<Rightarrow> SurveyParameters \<Rightarrow> py_error + SampleSizeResult" where
  "calculate_sample solve_power survey_profiles params =
     (case find (\<lambda>p. profile_id p = survey_type params) survey_profiles of
        None \<Rightarrow> Inl StopIteration
      | Some profile \<Rightarrow>
          (let rho = (if truthy_float (icc params) then the (icc params)
                     else default_icc profile);
              b = (if avg_cluster_size params \<noteq> 0 then avg_cluster_size params
                   else default_cluster_size profile);
              deff = calculate_deff b rho
          in (case calculate_base_sample params of
                Inl e \<Rightarrow> Inl e
              | Inr n0 \<Rightarrow>
                 (let n_design = n0 * deff
                  in (case apply_fpc n_design (population_size params) of
                        Inl e \<Rightarrow> Inl e
                      | Inr n_fpc \<Rightarrow>
                         (case inflate_non_response n_fpc (non_response_rate params) of
                            Inl e \<Rightarrow> Inl e
                          | Inr final_n \<Rightarrow>
                             (case power_analysis solve_power params of
                                Inl e \<Rightarrow> Inl e
                              | Inr power_sample \<Rightarrow>
                                  Inr \<lparr> base_sample_size = \<lceil>n0\<rceil>,
                                        design_effect = py_round deff 3,
                                        icc_used = py_round rho 3,
                                        cluster_size = b,
                                        adjusted_sample_size = \<lceil>n_design\<rceil>,
                                        final_sample_size = \<lceil>final_n\<rceil>,
                                        power_sample_size =
                                          (if truthy_float power_sample
                                           then Some \<lceil>the power_sample\<rceil> else None),
                                        effective_sample_size = \<lceil>n0\<rceil> \<rparr>)))))))"

text \<open>\<^verbatim>\<open>get_survey_types\<close>: \<^verbatim>\<open>p.get('description', '')\<close> gives the empty string for a missing key.\<close>

definition get_survey_types :: "SurveyProfile list \<Rightarrow> (string \<times> string \<times> string) list" where
  "get_survey_types survey_profiles =
     map (\<lambda>p. (profile_id p, profile_name p,
                (case description p of Some d \<Rightarrow> d | None \<Rightarrow> ''''))) survey_profiles"

text \<open>
  The parameters of the worked example: 15000 enumeration areas, 95 percent confidence, a
  margin of 0.05, prevalence 0.5, clusters of 25, correlation 0.15, non-response 0.10.
\<close>

definition example_parameters :: SurveyParameters where
  "example_parameters =
     (default_parameters ''annual_agri'' (Some 15000))
       \<lparr> avg_cluster_size := 25, icc := Some (15 / 100) \<rparr>"

section \<open>The two formulas in binary64 arithmetic\<close>

text \<open>
  Exact arithmetic orders any two distinct margins and any two distinct rates; the
  interpreter rounds after every operation, and two neighbouring floats can give one and
  the same result. Where a claim turns on this, the expression is embedded a second time
  with the rounding of a Python float, an IEEE 754 binary64: a significand of 53 bits,
  exponents from -1022 to 1023, gradual underflow, round to nearest with ties to the even
  significand, overflow to infinity. The sign of a zero is not represented: nothing in
  these expressions observes it, a division by either zero raising the same error.
\<close>

datatype f64 = Finite real | PosInf | NegInf | NaN

definition pow2 :: "int \<Rightarrow> real" where
  "pow2 k = (if 0 \<le> k then 2 ^ nat k else 1 / 2 ^ nat (- k))"

definition round_half_even :: "real \<Rightarrow> int" where
  "round_half_even y =
     (let f = \<lfloor>y\<rfloor>; d = y - of_int f
      in if d < 1 / 2 then f
         else if 1 / 2 < d then f + 1
         else if even f then f else f + 1)"

text \<open>
  The exponent of the unit in the last place of \<open>x\<close>: 52 below the binary exponent of
  \<open>x\<close>, and -1074 throughout the subnormal range.
\<close>

definition ulp_exponent :: "real \<Rightarrow> int" where
  "ulp_exponent x = (if x = 0 then - 1074 else max \<lfloor>log 2 \<bar>x\<bar>\<rfloor> (- 1022) - 52)"

definition round_to_ulp :: "real \<Rightarrow> real" where
  "round_to_ulp x =
     (let u = pow2 (ulp_exponent x) in of_int (round_half_even (x / u)) * u)"

definition f64_round :: "real \<Rightarrow> f64" where
  "f64_round x =
     (let y = round_to_ulp x
      in if 2 ^ 1024 \<le> y then PosInf
         else if y \<le> - (2 ^ 1024) then NegInf
         else Finite y)"

text \<open>The reals that are floats: those that rounding leaves as they are.\<close>

definition is_f64 :: "real \<Rightarrow> bool" where
  "is_f64 x = (f64_round x = Finite x)"

text \<open>\<^verbatim>\<open>x <= y\<close> on floats: false as soon as one side is not a number.\<close>

fun f64_le :: "f64 \<Rightarrow> f64 \<Rightarrow> bool" where
  "f64_le NaN y = False"
| "f64_le x NaN = False"
| "f64_le NegInf y = True"
| "f64_le x PosInf = True"
| "f64_le PosInf y = False"
| "f64_le x NegInf = False"
| "f64_le (Finite a) (Finite b) = (a \<le> b)"

fun f64_sub :: "f64 \<Rightarrow> f64 \<Rightarrow> f64" where
  "f64_sub NaN y = NaN"
| "f64_sub x NaN = NaN"
| "f64_sub (Finite a) (Finite b) = f64_round (a - b)"
| "f64_sub (Finite a) PosInf = NegInf"
| "f64_sub (Finite a) NegInf = PosInf"
| "f64_sub PosInf PosInf = NaN"
| "f64_sub PosInf y = PosInf"
| "f64_sub NegInf NegInf = NaN"
| "f64_sub NegInf y = NegInf"

fun f64_mul :: "f64 \<Rightarrow> f64 \<Rightarrow> f64" where
  "f64_mul NaN y = NaN"
| "f64_mul x NaN = NaN"
| "f64_mul (Finite a) (Finite b) = f64_round (a * b)"
| "f64_mul (Finite a) PosInf = (if a = 0 then NaN else if 0 < a then PosInf else NegInf)"
| "f64_mul (Finite a) NegInf = (if a = 0 then NaN else if 0 < a then NegInf else PosInf)"
| "f64_mul PosInf (Finite b) = (if b = 0 then NaN else if 0 < b then PosInf else NegInf)"
| "f64_mul NegInf (Finite b) = (if b = 0 then NaN else if 0 < b then NegInf else PosInf)"
| "f64_mul PosInf PosInf = PosInf"
| "f64_mul PosInf NegInf = NegInf"
| "f64_mul NegInf PosInf = NegInf"
| "f64_mul NegInf NegInf = PosInf"

text \<open>
  \<^verbatim>\<open>x / y\<close> on floats: Python tests the divisor for zero first and raises, whatever the
  dividend; every other case is the division of the hardware.
\<close>

fun f64_truediv :: "f64 \<Rightarrow> f64 \<Rightarrow> py_error + f64" where
  "f64_truediv x (Finite b) =
     (if b = 0 then Inl ZeroDivisionError
      else (case x of
              Finite a \<Rightarrow> Inr (f64_round (a / b))
            | PosInf \<Rightarrow> Inr (if 0 < b then PosInf else NegInf)
            | NegInf \<Rightarrow> Inr (if 0 < b then NegInf else PosInf)
            | NaN \<Rightarrow> Inr NaN))"
| "f64_truediv (Finite a) PosInf = Inr (Finite 0)"
| "f64_truediv (Finite a) NegInf = Inr (Finite 0)"
| "f64_truediv x y = Inr NaN"

text \<open>
  Line 71 of \<^verbatim>\<open>calculate_sample\<close> as the interpreter evaluates it: the subtraction is rounded,
  then the division.
\<close>

definition inflate_non_response_f64 :: "f64 \<Rightarrow> f64 \<Rightarrow> py_error + f64" where
  "inflate_non_response_f64 n_fpc r = f64_truediv n_fpc (f64_sub (Finite 1) r)"

text \<open>The table of z-scores holds the floats nearest to its three literals.\<close>

definition confidence_levels_f64 :: "int \<rightharpoonup> f64" where
  "confidence_levels_f64 =
     [90 \<mapsto> f64_round (1645 / 1000), 95 \<mapsto> f64_round (196 / 100),
      99 \<mapsto> f64_round (2576 / 1000)]"

text \<open>
  \<^verbatim>\<open>x ** 2\<close> on a float is the \<^verbatim>\<open>pow\<close> of the C library, which raises \<^verbatim>\<open>OverflowError\<close>
  on overflow and need not round correctly. It is a parameter of the base sample, as the
  solver is of the entry point. \<open>f64_square\<close> is the correctly rounded one.
\<close>

type_synonym float_square = "f64 \<Rightarrow> py_error + f64"

definition f64_square :: float_square where
  "f64_square x =
     (case x of
        Finite a \<Rightarrow>
          (case f64_round (a * a) of
             PosInf \<Rightarrow> Inl OverflowError
           | v \<Rightarrow> Inr v)
      | PosInf \<Rightarrow> Inr PosInf
      | NegInf \<Rightarrow> Inr PosInf
      | NaN \<Rightarrow> Inr NaN)"

text \<open>
  What the monotonicity of the base sample asks of the square: on a float between 0 and 4
  it returns a float between 0 and 16, and of two non-negative floats the larger never has
  the smaller square.
\<close>

definition monotone_square :: "float_square \<Rightarrow> bool" where
  "monotone_square square =
     ((\<forall>x. is_f64 x \<and> 0 \<le> x \<and> x \<le> 4 \<longrightarrow>
           (\<exists>v. square (Finite x) = Inr (Finite v) \<and> 0 \<le> v \<and> v \<le> 16))
      \<and> (\<forall>x y v w. is_f64 x \<and> is_f64 y \<and> 0 \<le> x \<and> x \<le> y
             \<and> square (Finite x) = Inr (Finite v)
             \<and> square (Finite y) = Inr (Finite w) \<longrightarrow> v \<le> w))"

text \<open>
  \<^verbatim>\<open>_calculate_base_sample\<close> as the interpreter evaluates it, left to right: the square of
  the z-score, the two products, the square of the margin, the division.
\<close>

definition calculate_base_sample_f64 :: "float_square \<Rightarrow> SurveyParameters \<Rightarrow> py_error + f64" where
  "calculate_base_sample_f64 square params =
     (case confidence_levels_f64 (confidence_level params) of
        None \<Rightarrow> Inl KeyError
      | Some Z \<Rightarrow>
          (case square Z of
             Inl e \<Rightarrow> Inl e
           | Inr zz \<Rightarrow>
               (case square (Finite (margin_error params)) of
                  Inl e \<Rightarrow> Inl e
                | Inr den \<Rightarrow>
                    f64_truediv
                      (f64_mul (f64_mul zz (Finite (expected_prevalence params)))
                         (f64_sub (Finite 1) (Finite (expected_prevalence params))))
                      den)))"

text \<open>The float written \<^verbatim>\<open>0.95\<close> and the next float above it.\<close>

definition margin_095 :: real where
  "margin_095 = 8556839292003942 / 2 ^ 53"

definition margin_095_next :: real where
  "margin_095_next = 8556839292003943 / 2 ^ 53"

section \<open>Running the engine step by step\<close>

lemma truthy_float_simps: "truthy_float None = False" "truthy_float (Some v) = (v \<noteq> 0)"
  by (simp_all add: truthy_float_def)

lemma confidence_levels_values:
  "confidence_levels 90 = Some (329 / 200)"
  "confidence_levels 95 = Some (49 / 25)"
  "confidence_levels 99 = Some (322 / 125)"
  by (simp_all add: confidence_levels_def)

lemma confidence_levels_listed:
  assumes "c \<in> {90, 95, 99}"
  shows "\<exists>Z. confidence_levels c = Some Z \<and> 0 < Z"
proof -
  from assms consider "c = 90" | "c = 95" | "c = 99"
    by auto
  then show ?thesis
  proof cases
    case 1
    show ?thesis
      unfolding 1 confidence_levels_values by (rule exI [of _ "329 / 200"]) simp
  next
    case 2
    show ?thesis
      unfolding 2 confidence_levels_values by (rule exI [of _ "49 / 25"]) simp
  next
    case 3
    show ?thesis
      unfolding 3 confidence_levels_values by (rule exI [of _ "322 / 125"]) simp
  qed
qed

lemma find_unknown:
  "survey_type params \<notin> profile_id ` set survey_profiles \<Longrightarrow>
   find (\<lambda>p. profile_id p = survey_type params) survey_profiles = None"
  by (auto simp: find_None_iff image_iff)

lemma find_known:
  "survey_type params \<in> profile_id ` set survey_profiles \<Longrightarrow>
   \<exists>profile. find (\<lambda>p. profile_id p = survey_type params) survey_profiles = Some profile"
  by (cases "find (\<lambda>p. profile_id p = survey_type params) survey_profiles")
     (auto simp: find_None_iff)

lemma calculate_sample_not_found:
  "find (\<lambda>p. profile_id p = survey_type params) survey_profiles = None \<Longrightarrow>
   calculate_sample solve_power survey_profiles params = Inl StopIteration"
  by (simp add: calculate_sample_def)

lemma calculate_sample_base_error:
  "find (\<lambda>p. profile_id p = survey_type params) survey_profiles = Some profile \<Longrightarrow>
   calculate_base_sample params = Inl e \<Longrightarrow>
   calculate_sample solve_power survey_profiles params = Inl e"
  by (simp add: calculate_sample_def Let_def)

lemma calculate_sample_steps:
  assumes "find (\<lambda>p. profile_id p = survey_type params) survey_profiles = Some profile"
    and "rho = (if truthy_float (icc params) then the (icc params) else default_icc profile)"
    and "b = (if avg_cluster_size params \<noteq> 0 then avg_cluster_size params
              else default_cluster_size profile)"
    and "calculate_base_sample params = Inr n0"
    and "apply_fpc (n0 * calculate_deff b rho) (population_size params) = Inr n_fpc"
    and "inflate_non_response n_fpc (non_response_rate params) = Inr final_n"
    and "power_analysis solve_power params = Inr power_sample"
  shows "calculate_sample solve_power survey_profiles params =
     Inr \<lparr> base_sample_size = \<lceil>n0\<rceil>,
           design_effect = py_round (calculate_deff b rho) 3,
           icc_used = py_round rho 3,
           cluster_size = b,
           adjusted_sample_size = \<lceil>n0 * calculate_deff b rho\<rceil>,
           final_sample_size = \<lceil>final_n\<rceil>,
           power_sample_size =
             (if truthy_float power_sample then Some \<lceil>the power_sample\<rceil> else None),
           effective_sample_size = \<lceil>n0\<rceil> \<rparr>"
  using assms by (simp add: calculate_sample_def Let_def)

lemma base_sample_unlisted:
  "confidence_level params \<notin> {90, 95, 99} \<Longrightarrow> calculate_base_sample params = Inl KeyError"
  by (simp add: calculate_base_sample_def confidence_levels_def)

lemma base_sample_errors:
  "calculate_base_sample params = Inl e \<Longrightarrow> e = KeyError \<or> e = ZeroDivisionError"
  by (auto simp: calculate_base_sample_def py_truediv_def split: option.splits if_splits)

lemma apply_fpc_errors: "apply_fpc n N = Inl e \<Longrightarrow> e = ZeroDivisionError"
  by (auto simp: apply_fpc_def py_truediv_def split: if_splits)

lemma inflate_at_one: "inflate_non_response n_fpc 1 = Inl ZeroDivisionError"
  by (simp add: inflate_non_response_def py_truediv_def)

lemma power_analysis_absent:
  "effect_size params = None \<Longrightarrow> power_analysis solve_power params = Inr None"
  by (simp add: power_analysis_def truthy_float_def)

lemma power_analysis_present:
  assumes "effect_size params = Some es" "es \<noteq> 0"
    and "solve_power es (alpha params) (power_target params) = Inr v"
  shows "power_analysis solve_power params = Inr (Some v)"
  using assms by (simp add: power_analysis_def calculate_power_def truthy_float_simps)

lemma calculate_sample_power:
  assumes "calculate_sample solve_power survey_profiles params = Inr r"
    and "power_analysis solve_power params = Inr power_sample"
  shows "power_sample_size r =
     (if truthy_float power_sample then Some \<lceil>the power_sample\<rceil> else None)"
  using assms
  by (auto simp: calculate_sample_def Let_def split: option.splits sum.splits)

lemma power_analysis_ignores_defaults:
  "effect_size params = None \<Longrightarrow>
   power_analysis solve_power (params\<lparr>alpha := a, power_target := w\<rparr>) =
   power_analysis solve_power params"
  by (simp add: power_analysis_def truthy_float_simps)

lemma base_sample_ignores_defaults:
  "calculate_base_sample (params\<lparr>alpha := a, power_target := w\<rparr>) =
   calculate_base_sample params"
  by (simp add: calculate_base_sample_def split: option.splits)

lemma calculate_sample_ignores_defaults:
  assumes "effect_size params = None"
  shows "calculate_sample solve_power survey_profiles (params\<lparr>alpha := a, power_target := w\<rparr>) =
     calculate_sample solve_power survey_profiles params"
  using power_analysis_ignores_defaults [OF assms, where solve_power = solve_power
      and a = a and w = w]
  by (simp add: calculate_sample_def base_sample_ignores_defaults Let_def
      cong: option.case_cong sum.case_cong if_cong)

subsection \<open>The finite population correction\<close>

lemma apply_fpc_positive:
  assumes "0 < N" "1 + (n - 1) / of_int N \<noteq> 0"
  shows "apply_fpc n (Some N) = Inr (n / (1 + (n - 1) / of_int N))"
  using assms by (simp add: apply_fpc_def truthy_int_def py_truediv_def)

lemma apply_fpc_skipped: "apply_fpc n None = Inr n" "apply_fpc n (Some 0) = Inr n"
  by (simp_all add: apply_fpc_def truthy_int_def)

lemma fpc_le:
  fixes n :: real
  assumes "0 < N" "1 \<le> n"
  shows "n / (1 + (n - 1) / of_int N) \<le> n"
proof -
  have "0 \<le> (n - 1) / of_int N"
    using assms by simp
  then have d: "1 \<le> 1 + (n - 1) / of_int N"
    by simp
  then have pos: "0 < 1 + (n - 1) / of_int N"
    by linarith
  have "n * 1 \<le> n * (1 + (n - 1) / of_int N)"
    using d assms by (intro mult_left_mono) simp_all
  then show ?thesis
    using pos by (simp add: pos_divide_le_eq)
qed

lemma fpc_limit:
  fixes n :: real
  shows "(\<lambda>k. n / (1 + (n - 1) / of_nat k)) \<longlonglongrightarrow> n"
proof -
  have "(\<lambda>k. (n - 1) / of_nat k) \<longlonglongrightarrow> 0"
    by (rule lim_const_over_n)
  then have "(\<lambda>k. 1 + (n - 1) / of_nat k) \<longlonglongrightarrow> 1 + 0"
    by (intro tendsto_add tendsto_const)
  then have "(\<lambda>k. n / (1 + (n - 1) / of_nat k)) \<longlonglongrightarrow> n / (1 + 0)"
    by (intro tendsto_divide tendsto_const) simp_all
  then show ?thesis by simp
qed

text \<open>From some population size on, the correction no longer divides by zero.\<close>

lemma fpc_eventually_defined:
  fixes n :: real
  shows "\<exists>K. \<forall>k\<ge>K. 0 < int k \<and> 1 + (n - 1) / of_int (int k) \<noteq> 0"
proof -
  obtain K :: nat where K: "\<bar>n - 1\<bar> < of_nat K"
    using reals_Archimedean2 by blast
  have "0 < int k \<and> 1 + (n - 1) / of_int (int k) \<noteq> 0" if "K \<le> k" for k
  proof -
    have k: "\<bar>n - 1\<bar> < of_nat k"
      using K that by (meson le_less_trans not_le of_nat_le_iff less_le_trans)
    then have pos: "0 < (of_nat k :: real)"
      by linarith
    have "- 1 < (n - 1) / of_nat k"
      using k pos by (simp add: pos_less_divide_eq)
    with pos show ?thesis by simp
  qed
  then show ?thesis by blast
qed

subsection \<open>The worked example, one step at a time\<close>

lemma find_annual_agri:
  "find (\<lambda>p. profile_id p = ''annual_agri'') builtin_profiles = Some (hd builtin_profiles)"
  by (simp add: builtin_profiles_def)

lemma hd_builtin:
  "default_icc (hd builtin_profiles) = 3 / 20"
  "default_cluster_size (hd builtin_profiles) = 25"
  by (simp_all add: builtin_profiles_def)

lemma example_fields:
  "survey_type example_parameters = ''annual_agri''"
  "population_size example_parameters = Some 15000"
  "confidence_level example_parameters = 95"
  "margin_error example_parameters = 1 / 20"
  "avg_cluster_size example_parameters = 25"
  "icc example_parameters = Some (3 / 20)"
  "expected_prevalence example_parameters = 1 / 2"
  "non_response_rate example_parameters = 1 / 10"
  "effect_size example_parameters = None"
  "alpha example_parameters = 1 / 20"
  "power_target example_parameters = 4 / 5"
  by (simp_all add: example_parameters_def default_parameters_def)

lemma base_sample_half_twentieth:
  assumes "confidence_level p = 95" "expected_prevalence p = 1 / 2" "margin_error p = 1 / 20"
  shows "calculate_base_sample p = Inr (9604 / 25)"
  by (simp add: calculate_base_sample_def confidence_levels_values py_truediv_def
      power2_eq_square assms)

lemma deff_25: "calculate_deff 25 (3 / 20) = 23 / 5"
  by (simp add: calculate_deff_def)

lemma fpc_15000: "apply_fpc (220892 / 125) (Some 15000) = Inr (1104460000 / 698589)"
  by (simp add: apply_fpc_def truthy_int_def py_truediv_def)

lemma inflate_tenth:
  "inflate_non_response (1104460000 / 698589) (1 / 10) = Inr (11044600000 / 6287301)"
  by (simp add: inflate_non_response_def py_truediv_def)

lemma inflate_two:
  "inflate_non_response (1104460000 / 698589) 2 = Inr (- (1104460000 / 698589))"
  by (simp add: inflate_non_response_def py_truediv_def)

lemma round_deff: "py_round (23 / 5) 3 = 23 / 5"
  by (simp add: py_round_def Let_def)

lemma round_icc: "py_round (3 / 20) 3 = 3 / 20"
  by (simp add: py_round_def Let_def)

text \<open>
  Every run on the built-in profile with the example's population, confidence, prevalence,
  margin and cluster size and a correlation that resolves to 0.15: the non-response rate and
  the power analysis are left open.
\<close>

lemma annual_agri_run:
  assumes "survey_type p = ''annual_agri''"
    and "population_size p = Some 15000"
    and "confidence_level p = 95"
    and "expected_prevalence p = 1 / 2"
    and "margin_error p = 1 / 20"
    and "avg_cluster_size p = 25"
    and "icc p = None \<or> icc p = Some 0 \<or> icc p = Some (3 / 20)"
    and "power_analysis solve_power p = Inr power_sample"
    and "inflate_non_response (1104460000 / 698589) (non_response_rate p) = Inr final_n"
  shows "calculate_sample solve_power builtin_profiles p =
     Inr \<lparr> base_sample_size = 385, design_effect = 23 / 5, icc_used = 3 / 20,
           cluster_size = 25, adjusted_sample_size = 1768, final_sample_size = \<lceil>final_n\<rceil>,
           power_sample_size =
             (if truthy_float power_sample then Some \<lceil>the power_sample\<rceil> else None),
           effective_sample_size = 385 \<rparr>"
proof -
  have rho: "(if truthy_float (icc p) then the (icc p) else default_icc (hd builtin_profiles))
      = 3 / 20"
    using assms(7) by (auto simp: truthy_float_simps hd_builtin)
  have base: "calculate_base_sample p = Inr (9604 / 25)"
    using assms(3-5) by (rule base_sample_half_twentieth)
  show ?thesis
    using calculate_sample_steps [where params = p and survey_profiles = builtin_profiles
        and solve_power = solve_power and profile = "hd builtin_profiles"
        and rho = "3 / 20" and b = 25 and ?n0.0 = "9604 / 25"
        and n_fpc = "1104460000 / 698589" and final_n = final_n
        and power_sample = power_sample]
    by (simp add: assms(1,2,6,8,9) rho base find_annual_agri
        deff_25 fpc_15000 round_deff round_icc)
qed

section \<open>Rounding to binary64 is monotone\<close>

lemma pow2_powr: "pow2 k = 2 powr of_int k"
  by (simp add: pow2_def powr_real_of_int inverse_eq_divide)

lemma pow2_pos: "0 < pow2 k"
  by (simp add: pow2_powr)

lemma pow2_add: "pow2 (a + b) = pow2 a * pow2 b"
  by (simp add: pow2_powr powr_add)

lemma pow2_0: "pow2 0 = 1"
  by (simp add: pow2_def)

lemma pow2_mono: "a \<le> b \<Longrightarrow> pow2 a \<le> pow2 b"
  by (simp add: pow2_powr)

lemma pow2_nat: "0 \<le> k \<Longrightarrow> pow2 k = of_int (2 ^ nat k)"
  by (simp add: pow2_def)

lemma floor_log2_bounds:
  assumes "0 < x"
  shows "pow2 \<lfloor>log 2 x\<rfloor> \<le> x" "x < pow2 (\<lfloor>log 2 x\<rfloor> + 1)"
  using floor_log_eq_powr_iff [of x 2 "\<lfloor>log 2 x\<rfloor>"] assms
  by (simp_all add: pow2_powr)

lemma floor_log2_eq:
  assumes "0 < x" "pow2 e \<le> x" "x < pow2 (e + 1)"
  shows "\<lfloor>log 2 x\<rfloor> = e"
  using floor_log_eq_powr_iff [of x 2 e] assms
  by (simp add: pow2_powr)

lemma round_half_even_bounds:
  "y - 1 / 2 \<le> of_int (round_half_even y)" "of_int (round_half_even y) \<le> y + 1 / 2"
  unfolding round_half_even_def Let_def by (auto; linarith)+

lemma round_half_even_of_int: "round_half_even (of_int k) = k"
  by (simp add: round_half_even_def)

lemma round_half_even_mono:
  assumes "x \<le> y"
  shows "round_half_even x \<le> round_half_even y"
proof (rule ccontr)
  assume "\<not> round_half_even x \<le> round_half_even y"
  then have gap: "round_half_even y + 1 \<le> round_half_even x"
    by simp
  then have "of_int (round_half_even y) + (1::real) \<le> of_int (round_half_even x)"
    by (metis of_int_le_iff of_int_add of_int_1)
  with round_half_even_bounds [of x] round_half_even_bounds [of y] assms
  have "x = y"
    by linarith
  with gap show False by simp
qed


lemma round_half_even_ge: "of_int k \<le> y \<Longrightarrow> k \<le> round_half_even y"
  using round_half_even_mono [of "of_int k" y] by (simp add: round_half_even_of_int)

lemma round_half_even_le: "y \<le> of_int k \<Longrightarrow> round_half_even y \<le> k"
  using round_half_even_mono [of y "of_int k"] by (simp add: round_half_even_of_int)

lemma ulp_exponent_pos:
  "0 < x \<Longrightarrow> ulp_exponent x = max \<lfloor>log 2 x\<rfloor> (- 1022) - 52"
  by (simp add: ulp_exponent_def)

lemma ulp_exponent_mono:
  assumes "0 < x" "x \<le> y"
  shows "ulp_exponent x \<le> ulp_exponent y"
proof -
  have "log 2 x \<le> log 2 y"
    using assms by simp
  then have "\<lfloor>log 2 x\<rfloor> \<le> \<lfloor>log 2 y\<rfloor>"
    by (rule floor_mono)
  then show ?thesis
    using assms by (simp add: ulp_exponent_pos)
qed

lemma scaled_less:
  assumes "0 < x"
  shows "x / pow2 (ulp_exponent x) < 2 ^ 53"
proof -
  have "\<lfloor>log 2 x\<rfloor> + 1 \<le> ulp_exponent x + 53"
    using assms by (simp add: ulp_exponent_pos)
  then have "pow2 (\<lfloor>log 2 x\<rfloor> + 1) \<le> pow2 (ulp_exponent x + 53)"
    by (rule pow2_mono)
  with floor_log2_bounds(2) [OF assms] have "x < pow2 (ulp_exponent x + 53)"
    by linarith
  also have "pow2 (ulp_exponent x + 53) = pow2 (ulp_exponent x) * 2 ^ 53"
    by (simp add: pow2_add) (simp add: pow2_def)
  finally show ?thesis
    by (simp add: pos_divide_less_eq pow2_pos mult.commute)
qed

lemma scaled_ge:
  assumes "0 < x" "- 1074 < ulp_exponent x"
  shows "2 ^ 52 \<le> x / pow2 (ulp_exponent x)"
proof -
  have e: "\<lfloor>log 2 x\<rfloor> = ulp_exponent x + 52"
    using assms by (simp add: ulp_exponent_pos split: if_splits)
  have "pow2 (ulp_exponent x + 52) \<le> x"
    using floor_log2_bounds(1) [OF assms(1)] by (simp add: e)
  moreover have "pow2 (ulp_exponent x + 52) = pow2 (ulp_exponent x) * 2 ^ 52"
    by (simp add: pow2_add) (simp add: pow2_def)
  ultimately show ?thesis
    by (simp add: pos_le_divide_eq pow2_pos mult.commute)
qed

lemma round_to_ulp_upper:
  assumes "0 < x"
  shows "round_to_ulp x \<le> pow2 (ulp_exponent x) * 2 ^ 53"
proof -
  have "x / pow2 (ulp_exponent x) \<le> of_int (2 ^ 53)"
    using scaled_less [OF assms] by simp
  then have "round_half_even (x / pow2 (ulp_exponent x)) \<le> 2 ^ 53"
    by (rule round_half_even_le)
  then have "real_of_int (round_half_even (x / pow2 (ulp_exponent x))) \<le> 2 ^ 53"
    by (metis of_int_le_iff of_int_numeral of_int_power)
  then show ?thesis
    using pow2_pos [of "ulp_exponent x"]
    by (simp add: round_to_ulp_def Let_def mult.commute)
qed

lemma round_to_ulp_lower:
  assumes "0 < x" "- 1074 < ulp_exponent x"
  shows "pow2 (ulp_exponent x) * 2 ^ 52 \<le> round_to_ulp x"
proof -
  have "of_int (2 ^ 52) \<le> x / pow2 (ulp_exponent x)"
    using scaled_ge [OF assms] by simp
  then have "2 ^ 52 \<le> round_half_even (x / pow2 (ulp_exponent x))"
    by (rule round_half_even_ge)
  then have "2 ^ 52 \<le> real_of_int (round_half_even (x / pow2 (ulp_exponent x)))"
    by (metis of_int_le_iff of_int_numeral of_int_power)
  then show ?thesis
    using pow2_pos [of "ulp_exponent x"]
    by (simp add: round_to_ulp_def Let_def mult.commute)
qed

lemma round_to_ulp_0: "round_to_ulp 0 = 0"
  by (simp add: round_to_ulp_def round_half_even_def)

lemma round_to_ulp_nonneg:
  assumes "0 \<le> x"
  shows "0 \<le> round_to_ulp x"
proof -
  have "of_int 0 \<le> x / pow2 (ulp_exponent x)"
    using assms pow2_pos [of "ulp_exponent x"] by simp
  then have "0 \<le> round_half_even (x / pow2 (ulp_exponent x))"
    by (rule round_half_even_ge)
  then show ?thesis
    using pow2_pos [of "ulp_exponent x"] by (simp add: round_to_ulp_def Let_def)
qed

lemma round_to_ulp_mono:
  assumes "0 \<le> x" "x \<le> y"
  shows "round_to_ulp x \<le> round_to_ulp y"
proof (cases "x = 0")
  case True
  then show ?thesis
    using assms round_to_ulp_nonneg [of y] by (simp add: round_to_ulp_0)
next
  case False
  with assms have pos: "0 < x" "0 < y"
    by simp_all
  have le: "ulp_exponent x \<le> ulp_exponent y"
    using pos(1) assms(2) by (rule ulp_exponent_mono)
  show ?thesis
  proof (cases "ulp_exponent x = ulp_exponent y")
    case True
    have "x / pow2 (ulp_exponent y) \<le> y / pow2 (ulp_exponent y)"
      using assms(2) pow2_pos [of "ulp_exponent y"] by (simp add: divide_right_mono)
    then have "round_half_even (x / pow2 (ulp_exponent y))
        \<le> round_half_even (y / pow2 (ulp_exponent y))"
      by (rule round_half_even_mono)
    then show ?thesis
      using pow2_pos [of "ulp_exponent y"]
      by (simp add: round_to_ulp_def Let_def True)
  next
    case False
    with le have lt: "ulp_exponent x + 1 \<le> ulp_exponent y"
      by simp
    have low: "- 1074 < ulp_exponent y"
    proof -
      have "- 1074 \<le> ulp_exponent x"
        using pos(1) by (simp add: ulp_exponent_pos)
      with lt show ?thesis by linarith
    qed
    have "round_to_ulp x \<le> pow2 (ulp_exponent x) * 2 ^ 53"
      using pos(1) by (rule round_to_ulp_upper)
    also have "\<dots> = pow2 (ulp_exponent x + 1) * 2 ^ 52"
      by (simp add: pow2_add) (simp add: pow2_def)
    also have "\<dots> \<le> pow2 (ulp_exponent y) * 2 ^ 52"
      using pow2_mono [OF lt] by simp
    also have "\<dots> \<le> round_to_ulp y"
      using pos(2) low by (rule round_to_ulp_lower)
    finally show ?thesis .
  qed
qed

lemma f64_round_nonneg:
  assumes "0 \<le> x"
  shows "f64_round x = (if 2 ^ 1024 \<le> round_to_ulp x then PosInf else Finite (round_to_ulp x))"
  using round_to_ulp_nonneg [OF assms] by (simp add: f64_round_def Let_def)

lemma f64_round_mono:
  assumes "0 \<le> x" "x \<le> y"
  shows "f64_le (f64_round x) (f64_round y)"
proof -
  have "0 \<le> y"
    using assms by simp
  then show ?thesis
    using round_to_ulp_mono [OF assms] assms(1)
    by (simp add: f64_round_nonneg)
qed

lemma round_to_ulp_eval:
  assumes "0 < x" "pow2 e \<le> x" "x < pow2 (e + 1)"
    and "u = max e (- 1022) - 52"
    and "round_half_even (x / pow2 u) = m"
  shows "round_to_ulp x = of_int m * pow2 u"
proof -
  have "\<lfloor>log 2 x\<rfloor> = e"
    using assms(1-3) by (rule floor_log2_eq)
  then have "ulp_exponent x = u"
    using assms(1,4) by (simp add: ulp_exponent_pos)
  then show ?thesis
    using assms(5) by (simp add: round_to_ulp_def Let_def)
qed

lemma f64_round_eval:
  assumes "0 < x" "pow2 e \<le> x" "x < pow2 (e + 1)"
    and "u = max e (- 1022) - 52"
    and "round_half_even (x / pow2 u) = m"
    and "of_int m * pow2 u < 2 ^ 1024"
  shows "f64_round x = Finite (of_int m * pow2 u)"
  using round_to_ulp_eval [OF assms(1-5)] assms(1,6)
  by (simp add: f64_round_nonneg)

lemma round_to_ulp_pow2:
  assumes "- 1074 \<le> k"
  shows "round_to_ulp (pow2 k) = pow2 k"
proof -
  define u where "u = max k (- 1022) - 52"
  have d: "0 \<le> k - u"
    using assms by (simp add: u_def)
  have split: "pow2 k = pow2 (k - u) * pow2 u"
    using pow2_add [of "k - u" u] by simp
  then have "pow2 k / pow2 u = of_int (2 ^ nat (k - u))"
    using pow2_pos [of u] d by (simp add: pow2_nat)
  then have m: "round_half_even (pow2 k / pow2 u) = 2 ^ nat (k - u)"
    by (simp only: round_half_even_of_int)
  have "pow2 k < pow2 (k + 1)"
    by (simp add: pow2_add [of k 1]) (simp add: pow2_def pow2_pos)
  with m have "round_to_ulp (pow2 k) = of_int (2 ^ nat (k - u)) * pow2 u"
    by (intro round_to_ulp_eval [where e = k]) (simp_all add: pow2_pos u_def)
  also have "\<dots> = pow2 (k - u) * pow2 u"
    using d by (simp add: pow2_nat)
  also have "\<dots> = pow2 k"
    using split by simp
  finally show ?thesis .
qed

lemma is_f64_pow2:
  assumes "- 1074 \<le> k" "k < 1024"
  shows "is_f64 (pow2 k)"
proof -
  have "pow2 k \<le> pow2 1023"
    using assms by (intro pow2_mono) simp
  also have "\<dots> < 2 ^ 1024"
    by (simp add: pow2_def)
  finally show ?thesis
    using pow2_pos [of k] round_to_ulp_pow2 [OF assms(1)]
    by (simp add: is_f64_def f64_round_nonneg)
qed

lemma is_f64_0: "is_f64 0"
  by (simp add: is_f64_def f64_round_nonneg round_to_ulp_0)

lemma is_f64_1: "is_f64 1"
  using is_f64_pow2 [of 0] by (simp add: pow2_def)

lemma is_f64_half: "is_f64 (1 / 2)"
  using is_f64_pow2 [of "- 1"] by (simp add: pow2_def)

lemma is_f64_4: "is_f64 4"
  using is_f64_pow2 [of 2] by (simp add: pow2_def)

lemma is_f64_16: "is_f64 16"
  using is_f64_pow2 [of 4] by (simp add: pow2_def)

lemma is_f64_round_to_ulp: "is_f64 x \<Longrightarrow> round_to_ulp x = x"
  by (simp add: is_f64_def f64_round_def Let_def split: if_splits)

lemma f64_round_between:
  assumes "is_f64 a" "is_f64 b" "0 \<le> a" "a \<le> x" "x \<le> b"
  shows "\<exists>v. f64_round x = Finite v \<and> a \<le> v \<and> v \<le> b"
proof -
  have lo: "f64_le (Finite a) (f64_round x)"
    using f64_round_mono [of a x] assms by (simp add: is_f64_def)
  have hi: "f64_le (f64_round x) (Finite b)"
    using f64_round_mono [of x b] assms by (simp add: is_f64_def)
  show ?thesis
  proof (cases "f64_round x")
    case (Finite v)
    with lo hi show ?thesis by simp
  qed (use lo hi in simp_all)
qed

text \<open>Rounding a float changes nothing: what rounding returns is a float.\<close>

lemma floor_log2_less:
  assumes "0 < v" "v < pow2 k"
  shows "\<lfloor>log 2 v\<rfloor> < k"
proof (rule ccontr)
  assume "\<not> \<lfloor>log 2 v\<rfloor> < k"
  then have "pow2 k \<le> pow2 \<lfloor>log 2 v\<rfloor>"
    by (intro pow2_mono) simp
  with floor_log2_bounds(1) [OF assms(1)] assms(2) show False
    by linarith
qed

lemma round_to_ulp_idem:
  assumes "0 \<le> x"
  shows "round_to_ulp (round_to_ulp x) = round_to_ulp x"
proof (cases "x = 0")
  case True
  then show ?thesis
    by (simp add: round_to_ulp_0)
next
  case False
  with assms have pos: "0 < x"
    by simp
  define u where "u = ulp_exponent x"
  define m where "m = round_half_even (x / pow2 u)"
  define v where "v = of_int m * pow2 u"
  have v: "round_to_ulp x = v"
    by (simp add: round_to_ulp_def Let_def u_def m_def v_def)
  have u: "- 1074 \<le> u"
    using pos by (simp add: u_def ulp_exponent_pos)
  have "of_int 0 \<le> x / pow2 u"
    using pos pow2_pos [of u] by simp
  then have m0: "0 \<le> m"
    unfolding m_def by (rule round_half_even_ge)
  have "x / pow2 u \<le> of_int (2 ^ 53)"
    using scaled_less [OF pos] by (simp add: u_def)
  then have m53: "m \<le> 2 ^ 53"
    unfolding m_def by (rule round_half_even_le)
  consider "m = 0" | "m = 2 ^ 53" | "0 < m" "m < 2 ^ 53"
    using m0 m53 by linarith
  then have "round_to_ulp v = v"
  proof cases
    case 1
    then show ?thesis
      by (simp add: v_def round_to_ulp_0)
  next
    case 2
    then have "v = pow2 (53 + u)"
      by (simp add: v_def pow2_add) (simp add: pow2_def)
    then show ?thesis
      using round_to_ulp_pow2 [of "53 + u"] u by simp
  next
    case 3
    have vpos: "0 < v"
      using 3 pow2_pos [of u] by (simp add: v_def)
    have "real_of_int m < of_int (2 ^ 53)"
      using 3 by (simp only: of_int_less_iff)
    then have "v < 2 ^ 53 * pow2 u"
      using pow2_pos [of u] by (simp add: v_def)
    also have "\<dots> = pow2 (53 + u)"
      by (simp add: pow2_add) (simp add: pow2_def)
    finally have "\<lfloor>log 2 v\<rfloor> < 53 + u"
      using vpos by (intro floor_log2_less)
    then have le: "ulp_exponent v \<le> u"
      using vpos u by (simp add: ulp_exponent_pos)
    define w where "w = ulp_exponent v"
    have "pow2 u = pow2 (u - w) * pow2 w"
      using pow2_add [of "u - w" w] by simp
    also have "pow2 (u - w) = of_int (2 ^ nat (u - w))"
      using le by (intro pow2_nat) (simp add: w_def)
    finally have split: "pow2 u = of_int (2 ^ nat (u - w)) * pow2 w" .
    then have "v / pow2 w = of_int (m * 2 ^ nat (u - w))"
      using pow2_pos [of w] by (simp add: v_def)
    then have "round_half_even (v / pow2 w) = m * 2 ^ nat (u - w)"
      by (simp only: round_half_even_of_int)
    then have "round_to_ulp v = of_int (m * 2 ^ nat (u - w)) * pow2 w"
      by (simp add: round_to_ulp_def Let_def w_def)
    also have "\<dots> = v"
      using split by (simp add: v_def)
    finally show ?thesis .
  qed
  with v show ?thesis by simp
qed

lemma f64_round_is_f64:
  assumes "0 \<le> x" "f64_round x = Finite v"
  shows "is_f64 v"
proof -
  have v: "v = round_to_ulp x" "round_to_ulp x < 2 ^ 1024"
    using assms by (simp_all add: f64_round_nonneg split: if_splits)
  then have "round_to_ulp v = v"
    using round_to_ulp_idem [OF assms(1)] by simp
  moreover have "0 \<le> v"
    using v round_to_ulp_nonneg [OF assms(1)] by simp
  ultimately show ?thesis
    using v by (simp add: is_f64_def f64_round_nonneg)
qed

lemma ulp_exponent_upper_half:
  assumes "1 / 2 \<le> r" "r < 1"
  shows "ulp_exponent r = - 53"
proof -
  have "\<lfloor>log 2 r\<rfloor> = - 1"
    using assms by (intro floor_log2_eq) (simp_all add: pow2_def)
  then show ?thesis
    using assms by (simp add: ulp_exponent_pos)
qed

lemma f64_below_one:
  assumes "is_f64 r" "1 / 2 \<le> r" "r < 1"
  shows "r \<le> 1 - pow2 (- 53)"
proof -
  define m where "m = round_half_even (r / pow2 (- 53))"
  have r: "r = of_int m * pow2 (- 53)"
    using is_f64_round_to_ulp [OF assms(1)] ulp_exponent_upper_half [OF assms(2,3)]
    by (simp add: round_to_ulp_def Let_def m_def)
  have "of_int m * pow2 (- 53) < 1"
    using assms(3) r by simp
  then have "real_of_int m < of_int (2 ^ 53)"
    by (simp add: pow2_def pos_less_divide_eq [symmetric])
  then have "m < 2 ^ 53"
    by (simp only: of_int_less_iff)
  then have "m \<le> 2 ^ 53 - 1"
    by simp
  then have "real_of_int m \<le> of_int (2 ^ 53 - 1)"
    by (simp only: of_int_le_iff)
  then have "of_int m * pow2 (- 53) \<le> 1 - pow2 (- 53)"
    by (simp add: pow2_def field_simps)
  with r show ?thesis by simp
qed

lemma one_minus_rate:
  assumes "is_f64 r" "0 \<le> r" "r < 1"
  shows "\<exists>d. f64_round (1 - r) = Finite d \<and> 0 < d \<and> d \<le> 1"
proof -
  have "pow2 (- 53) \<le> 1 - r"
  proof (cases "1 / 2 \<le> r")
    case True
    then show ?thesis
      using f64_below_one [OF assms(1) True assms(3)] by simp
  next
    case False
    moreover have "pow2 (- 53) \<le> 1 / 2"
      by (simp add: pow2_def)
    ultimately show ?thesis by linarith
  qed
  then obtain d where "f64_round (1 - r) = Finite d" "pow2 (- 53) \<le> d" "d \<le> 1"
    using f64_round_between [of "pow2 (- 53)" 1 "1 - r"] assms(2) is_f64_1
      is_f64_pow2 [of "- 53"] pow2_pos [of "- 53"]
    by auto
  then show ?thesis
    using pow2_pos [of "- 53"] by (intro exI [of _ d]) simp
qed

lemma is_f64_900: "is_f64 900"
  unfolding is_f64_def
  using f64_round_eval [where x = 900 and e = 9 and u = "- 43" and m = "900 * 2 ^ 43"]
  by (simp add: pow2_def round_half_even_def)

lemma is_f64_quarter: "is_f64 (1 / 4)"
  using is_f64_pow2 [of "- 2"] by (simp add: pow2_def)

lemma is_f64_tiny: "is_f64 (1 / 2 ^ 60)"
  using is_f64_pow2 [of "- 60"] by (simp add: pow2_def)

lemma round_one_minus_tiny: "f64_round (1 - 1 / 2 ^ 60) = Finite 1"
  using f64_round_eval [where x = "1 - 1 / 2 ^ 60" and e = "- 1" and u = "- 53"
      and m = "2 ^ 53"]
  by (simp add: pow2_def round_half_even_def)

subsection \<open>The base sample in binary64\<close>

lemma confidence_levels_f64_listed:
  assumes "c \<in> {90, 95, 99}"
  shows "\<exists>Z. confidence_levels_f64 c = Some (Finite Z) \<and> is_f64 Z \<and> 0 \<le> Z \<and> Z \<le> 4"
proof -
  have r: "\<exists>Z. f64_round x = Finite Z \<and> is_f64 Z \<and> 0 \<le> Z \<and> Z \<le> 4"
    if "1 \<le> x" "x \<le> 4" for x
  proof -
    from that obtain Z where Z: "f64_round x = Finite Z" "1 \<le> Z" "Z \<le> 4"
      using f64_round_between [of 1 4 x] is_f64_1 is_f64_4 by auto
    moreover have "is_f64 Z"
      using that Z(1) by (intro f64_round_is_f64 [of x]) simp_all
    ultimately show ?thesis by auto
  qed
  from assms consider "c = 90" | "c = 95" | "c = 99"
    by auto
  then show ?thesis
  proof cases
    case 1
    then show ?thesis
      using r [of "1645 / 1000"] by (auto simp: confidence_levels_f64_def)
  next
    case 2
    then show ?thesis
      using r [of "196 / 100"] by (auto simp: confidence_levels_f64_def)
  next
    case 3
    then show ?thesis
      using r [of "2576 / 1000"] by (auto simp: confidence_levels_f64_def)
  qed
qed

lemma f64_mul_between:
  assumes "0 \<le> a" "a \<le> 16" "0 \<le> b" "b \<le> 1"
  shows "\<exists>c. f64_mul (Finite a) (Finite b) = Finite c \<and> 0 \<le> c \<and> c \<le> 16"
proof -
  have "a * b \<le> 16 * 1"
    using assms by (intro mult_mono) simp_all
  then show ?thesis
    using f64_round_between [of 0 16 "a * b"] assms is_f64_0 is_f64_16 by simp
qed

lemma f64_square_finite:
  "f64_round (a * a) = Finite v \<Longrightarrow> f64_square (Finite a) = Inr (Finite v)"
  by (simp add: f64_square_def)

lemma f64_square_finite_iff:
  "f64_square (Finite a) = Inr (Finite v) \<longleftrightarrow> f64_round (a * a) = Finite v"
  by (cases "f64_round (a * a)") (simp_all add: f64_square_def)

lemma monotone_f64_square: "monotone_square f64_square"
  unfolding monotone_square_def
proof (intro conjI allI impI)
  fix x :: real
  assume h: "is_f64 x \<and> 0 \<le> x \<and> x \<le> 4"
  then have "x * x \<le> 4 * 4"
    by (intro mult_mono) simp_all
  then obtain v where "f64_round (x * x) = Finite v" "0 \<le> v" "v \<le> 16"
    using f64_round_between [of 0 16 "x * x"] is_f64_0 is_f64_16 by auto
  then show "\<exists>v. f64_square (Finite x) = Inr (Finite v) \<and> 0 \<le> v \<and> v \<le> 16"
    by (auto simp: f64_square_finite)
next
  fix x y v w :: real
  assume h: "is_f64 x \<and> is_f64 y \<and> 0 \<le> x \<and> x \<le> y
      \<and> f64_square (Finite x) = Inr (Finite v)
      \<and> f64_square (Finite y) = Inr (Finite w)"
  then have r: "f64_round (x * x) = Finite v" "f64_round (y * y) = Finite w"
    by (simp_all add: f64_square_finite_iff)
  have "x * x \<le> y * y"
    using h by (intro mult_mono) simp_all
  then have "f64_le (f64_round (x * x)) (f64_round (y * y))"
    by (intro f64_round_mono) simp_all
  with r show "v \<le> w"
    by simp
qed

lemma is_f64_sixteenth: "f64_round (1 / 16) = Finite (1 / 16)"
  using is_f64_pow2 [of "- 4"] by (simp add: pow2_def is_f64_def)

lemma round_z95: "f64_round (49 / 25) = Finite (2206763817411543 / 1125899906842624)"
  using f64_round_eval [where x = "49 / 25" and e = 0 and u = "- 52"
      and m = 8827055269646172]
  by (simp add: pow2_def round_half_even_def)

lemma round_z95_squared:
  "f64_round (4869806545836765892248629640849 / 1267650600228229401496703205376)
     = Finite (135164283816457 / 35184372088832)"
  using f64_round_eval [where
      x = "4869806545836765892248629640849 / 1267650600228229401496703205376"
      and e = 1 and u = "- 51" and m = 8650514164253248]
  by (simp add: pow2_def round_half_even_def)

lemma round_half_z95_squared:
  "f64_round (135164283816457 / 70368744177664) = Finite (135164283816457 / 70368744177664)"
  using f64_round_eval [where x = "135164283816457 / 70368744177664"
      and e = 0 and u = "- 52" and m = 8650514164253248]
  by (simp add: pow2_def round_half_even_def)

lemma round_quarter_z95_squared:
  "f64_round (135164283816457 / 140737488355328) = Finite (135164283816457 / 140737488355328)"
  using f64_round_eval [where x = "135164283816457 / 140737488355328"
      and e = "- 1" and u = "- 53" and m = 8650514164253248]
  by (simp add: pow2_def round_half_even_def)

lemma round_half: "f64_round (1 / 2) = Finite (1 / 2)"
  using is_f64_half by (simp add: is_f64_def)

lemma round_margin_095_squared:
  "f64_round (18304874667295630846244535884841 / 20282409603651670423947251286016)
     = Finite (8128997327403745 / 9007199254740992)"
  using f64_round_eval [where
      x = "18304874667295630846244535884841 / 20282409603651670423947251286016"
      and e = "- 1" and u = "- 53" and m = 8128997327403745]
  by (simp add: pow2_def round_half_even_def)

lemma round_margin_095_next_squared:
  "f64_round (73219498669182540498656727547249 / 81129638414606681695789005144064)
     = Finite (4064498663701873 / 4503599627370496)"
  using f64_round_eval [where
      x = "73219498669182540498656727547249 / 81129638414606681695789005144064"
      and e = "- 1" and u = "- 53" and m = 8128997327403746]
  by (simp add: pow2_def round_half_even_def)

lemma round_base_095:
  "f64_round (8650514164253248 / 8128997327403745)
     = Finite (4792528622854985 / 4503599627370496)"
  using f64_round_eval [where x = "8650514164253248 / 8128997327403745"
      and e = 0 and u = "- 52" and m = 4792528622854985]
  by (simp add: pow2_def round_half_even_def)

lemma round_base_095_next:
  "f64_round (4325257082126624 / 4064498663701873)
     = Finite (4792528622854985 / 4503599627370496)"
  using f64_round_eval [where x = "4325257082126624 / 4064498663701873"
      and e = 0 and u = "- 52" and m = 4792528622854985]
  by (simp add: pow2_def round_half_even_def)

lemma is_f64_margin_095: "is_f64 margin_095"
  unfolding is_f64_def margin_095_def
  using f64_round_eval [where x = "8556839292003942 / 2 ^ 53" and e = "- 1" and u = "- 53"
      and m = 8556839292003942]
  by (simp add: pow2_def round_half_even_def)

lemma is_f64_margin_095_next: "is_f64 margin_095_next"
  unfolding is_f64_def margin_095_next_def
  using f64_round_eval [where x = "8556839292003943 / 2 ^ 53" and e = "- 1" and u = "- 53"
      and m = 8556839292003943]
  by (simp add: pow2_def round_half_even_def)

lemma base_sample_f64_at_095:
  "calculate_base_sample_f64 f64_square (example_parameters\<lparr>margin_error := margin_095\<rparr>)
     = Inr (Finite (4792528622854985 / 2 ^ 52))"
  by (simp add: calculate_base_sample_f64_def confidence_levels_f64_def example_fields
      margin_095_def f64_square_def round_z95 round_z95_squared round_half_z95_squared
      round_quarter_z95_squared round_half round_margin_095_squared round_base_095)

lemma base_sample_f64_at_095_next:
  "calculate_base_sample_f64 f64_square
     (example_parameters\<lparr>margin_error := margin_095_next\<rparr>)
     = Inr (Finite (4792528622854985 / 2 ^ 52))"
  by (simp add: calculate_base_sample_f64_def confidence_levels_f64_def example_fields
      margin_095_next_def f64_square_def round_z95 round_z95_squared round_half_z95_squared
      round_quarter_z95_squared round_half round_margin_095_next_squared
      round_base_095_next)


lemma is_f64_margin_tiny: "is_f64 (1 / 2 ^ 600)"
  using is_f64_pow2 [of "- 600"] by (simp add: pow2_def)

lemma round_margin_tiny_squared: "f64_round (1 / 2 ^ 1200) = Finite 0"
  using f64_round_eval [where x = "1 / 2 ^ 1200" and e = "- 1200" and u = "- 1074"
      and m = 0]
  by (simp add: pow2_def round_half_even_def)

lemma square_margin_tiny: "f64_square (Finite (1 / 2 ^ 600)) = Inr (Finite 0)"
proof -
  have "(1 / 2 ^ 600) * (1 / 2 ^ 600) = (1 / 2 ^ 1200 :: real)"
    by simp
  then show ?thesis
    using round_margin_tiny_squared by (simp only: f64_square_finite)
qed

lemma base_sample_f64_zero_divisor:
  assumes "confidence_levels_f64 (confidence_level params) = Some Z"
    and "square Z = Inr zz"
    and "square (Finite (margin_error params)) = Inr (Finite 0)"
  shows "calculate_base_sample_f64 square params = Inl ZeroDivisionError"
  using assms by (simp add: calculate_base_sample_f64_def)

lemma base_sample_f64_at_tiny:
  "calculate_base_sample_f64 f64_square (example_parameters\<lparr>margin_error := 1 / 2 ^ 600\<rparr>)
     = Inl ZeroDivisionError"
proof -
  let ?q = "example_parameters\<lparr>margin_error := 1 / 2 ^ 600\<rparr>"
  have Z: "confidence_levels_f64 (confidence_level ?q)
      = Some (Finite (2206763817411543 / 1125899906842624))"
    by (simp add: confidence_levels_f64_def example_fields round_z95)
  have zz: "f64_square (Finite (2206763817411543 / 1125899906842624))
      = Inr (Finite (135164283816457 / 35184372088832))"
    by (rule f64_square_finite) (simp add: round_z95_squared)
  have "margin_error ?q = 1 / 2 ^ 600"
    by simp
  with square_margin_tiny have den: "f64_square (Finite (margin_error ?q)) = Inr (Finite 0)"
    by (simp only:)
  from Z zz den show ?thesis
    by (rule base_sample_f64_zero_divisor)
qed

section \<open>The worked example\<close>

text \<open>
  The stated final size of 1737 is not what the engine returns on the example: no result
  of the run carries the four stated figures together.
\<close>

theorem example_final_size_not_1737:
  "\<not> (\<exists>r. calculate_sample (constant_solver 64) builtin_profiles example_parameters = Inr r
          \<and> base_sample_size r = 385 \<and> design_effect r = 46 / 10
          \<and> adjusted_sample_size r = 1768 \<and> final_sample_size r = 1737)"
  using annual_agri_run [where p = example_parameters and solve_power = "constant_solver 64"
      and power_sample = None and final_n = "11044600000 / 6287301"]
  by (simp add: example_fields inflate_tenth power_analysis_absent truthy_float_simps)

text \<open>
  Claim C1, as amended. For population 15000, confidence 95, margin 0.05, prevalence 0.5,
  cluster size 25, correlation 0.15 and non-response 0.10 on the built-in profile,
  \<open>calculate_sample\<close> returns a base size of 385, a design effect of 4.6, an adjusted size
  of 1768 and a final size of 1757: the corrected size is 1104460000/698589, about 1580.99,
  and dividing by 0.9 gives about 1756.65.
\<close>

theorem example_scenario_result:
  "calculate_sample solve_power builtin_profiles example_parameters =
     Inr \<lparr> base_sample_size = 385, design_effect = 23 / 5, icc_used = 3 / 20,
           cluster_size = 25, adjusted_sample_size = 1768, final_sample_size = 1757,
           power_sample_size = None, effective_sample_size = 385 \<rparr>"
  using annual_agri_run [where p = example_parameters and solve_power = solve_power
      and power_sample = None and final_n = "11044600000 / 6287301"]
  by (simp add: example_fields inflate_tenth power_analysis_absent truthy_float_simps)

section \<open>Failures of the entry point\<close>

text \<open>
  A non-response rate above 1 is not rejected: with a rate of 2 the example returns a
  result whose final size is negative.
\<close>

theorem non_response_above_one_returns_result:
  "calculate_sample (constant_solver 64) builtin_profiles
     (example_parameters\<lparr>non_response_rate := 2\<rparr>) =
     Inr \<lparr> base_sample_size = 385, design_effect = 23 / 5, icc_used = 3 / 20,
           cluster_size = 25, adjusted_sample_size = 1768, final_sample_size = - 1580,
           power_sample_size = None, effective_sample_size = 385 \<rparr>"
  using annual_agri_run [where p = "example_parameters\<lparr>non_response_rate := 2\<rparr>"
      and solve_power = "constant_solver 64" and power_sample = None
      and final_n = "- (1104460000 / 698589)"]
  by (simp add: example_fields inflate_two power_analysis_absent truthy_float_simps)

text \<open>
  Claim C2, as amended. For every parameter set with a non-response rate of exactly 1 the
  entry point fails and produces no result. The error is the not-found error when no
  profile matches, else the error of the base sample when that fails, else the error of
  the finite population correction when that fails, and in every other case the
  \<^verbatim>\<open>ZeroDivisionError\<close> of the inflation step.
\<close>

theorem non_response_one_fails:
  assumes "non_response_rate params = 1"
  shows "calculate_sample solve_power survey_profiles params =
     (case find (\<lambda>p. profile_id p = survey_type params) survey_profiles of
        None \<Rightarrow> Inl StopIteration
      | Some profile \<Rightarrow>
          (case calculate_base_sample params of
             Inl e \<Rightarrow> Inl e
           | Inr n0 \<Rightarrow>
               (case apply_fpc
                       (n0 * calculate_deff
                          (if avg_cluster_size params \<noteq> 0 then avg_cluster_size params
                           else default_cluster_size profile)
                          (if truthy_float (icc params) then the (icc params)
                           else default_icc profile))
                       (population_size params) of
                  Inl e \<Rightarrow> Inl e
                | Inr n_fpc \<Rightarrow> Inl ZeroDivisionError)))"
  using assms
  by (simp add: calculate_sample_def Let_def inflate_at_one split: option.splits sum.splits)

theorem non_response_one_fails_witness:
  "non_response_rate (example_parameters\<lparr>non_response_rate := 1\<rparr>) = 1
   \<and> calculate_sample (constant_solver 64) builtin_profiles
         (example_parameters\<lparr>non_response_rate := 1\<rparr>) = Inl ZeroDivisionError"
  using non_response_one_fails [of "example_parameters\<lparr>non_response_rate := 1\<rparr>"
      "constant_solver 64" builtin_profiles]
    base_sample_half_twentieth [of "example_parameters\<lparr>non_response_rate := 1\<rparr>"]
  by (simp add: example_fields find_annual_agri truthy_float_simps deff_25 fpc_15000)

text \<open>
  Claim C5. For every survey type that matches no profile of the registry,
  \<open>calculate_sample\<close> fails with the not-found error of the lookup (\<^verbatim>\<open>StopIteration\<close>, raised
  by \<^verbatim>\<open>next\<close>) and returns no result.
\<close>

theorem unknown_survey_type_fails:
  "survey_type params \<notin> profile_id ` set survey_profiles \<Longrightarrow>
   calculate_sample solve_power survey_profiles params = Inl StopIteration"
  by (simp add: find_unknown calculate_sample_not_found)

theorem unknown_survey_type_fails_witness:
  "survey_type (example_parameters\<lparr>survey_type := ''census''\<rparr>)
     \<notin> profile_id ` set builtin_profiles
   \<and> calculate_sample (constant_solver 64) builtin_profiles
         (example_parameters\<lparr>survey_type := ''census''\<rparr>) = Inl StopIteration"
  using unknown_survey_type_fails [of "example_parameters\<lparr>survey_type := ''census''\<rparr>"
      builtin_profiles "constant_solver 64"]
  by (simp add: builtin_profiles_def)

text \<open>
  Claim C10. For every parameter set whose confidence level is none of 90, 95 and 99,
  \<open>calculate_sample\<close> fails with a lookup error and returns no result: \<^verbatim>\<open>KeyError\<close> from the
  table of z-scores when the survey type resolves, the not-found error of the profile
  lookup otherwise.
\<close>

theorem unlisted_confidence_level_fails:
  assumes "confidence_level params \<notin> {90, 95, 99}"
  shows "calculate_sample solve_power survey_profiles params =
     (if survey_type params \<in> profile_id ` set survey_profiles
      then Inl KeyError else Inl StopIteration)"
proof (cases "survey_type params \<in> profile_id ` set survey_profiles")
  case True
  then obtain profile
    where "find (\<lambda>p. profile_id p = survey_type params) survey_profiles = Some profile"
    using find_known by blast
  then have "calculate_sample solve_power survey_profiles params = Inl KeyError"
    using base_sample_unlisted [OF assms] by (rule calculate_sample_base_error)
  with True show ?thesis by simp
next
  case False
  then show ?thesis
    by (simp add: find_unknown calculate_sample_not_found)
qed

theorem unlisted_confidence_level_fails_witness:
  "confidence_level (example_parameters\<lparr>confidence_level := 80\<rparr>) \<notin> {90, 95, 99}
   \<and> calculate_sample (constant_solver 64) builtin_profiles
         (example_parameters\<lparr>confidence_level := 80\<rparr>) = Inl KeyError"
  using unlisted_confidence_level_fails [of "example_parameters\<lparr>confidence_level := 80\<rparr>"
      "constant_solver 64" builtin_profiles]
  by (simp add: builtin_profiles_def example_fields)

section \<open>The formulas\<close>

text \<open>
  Claim C7. The design effect is exactly \<open>1 + (b - 1) * \<rho>\<close>, for every cluster size and
  every correlation, and it is 1 when the correlation is 0, whatever the cluster size.
\<close>

theorem calculate_deff_formula:
  "calculate_deff b rho = 1 + (of_int b - 1) * rho \<and> calculate_deff b 0 = 1"
  by (simp add: calculate_deff_def)

text \<open>
  In exact arithmetic, for a confidence level of 90, 95 or 99 and a prevalence strictly
  between 0 and 1, the base sample size is \<open>Z\<^sup>2 p (1 - p) / e\<^sup>2\<close> and strictly decreasing in the
  margin \<open>e\<close> on \<open>(0, 1)\<close>.
\<close>

lemma base_sample_exact_decreasing:
  assumes conf: "confidence_level params \<in> {90, 95, 99}"
    and prev: "0 < expected_prevalence params" "expected_prevalence params < 1"
    and marg: "0 < e1" "e1 < e2" "e2 < 1"
  shows "\<exists>Z. confidence_levels (confidence_level params) = Some Z
           \<and> calculate_base_sample (params\<lparr>margin_error := e1\<rparr>)
               = Inr (Z\<^sup>2 * expected_prevalence params * (1 - expected_prevalence params) / e1\<^sup>2)
           \<and> calculate_base_sample (params\<lparr>margin_error := e2\<rparr>)
               = Inr (Z\<^sup>2 * expected_prevalence params * (1 - expected_prevalence params) / e2\<^sup>2)
           \<and> Z\<^sup>2 * expected_prevalence params * (1 - expected_prevalence params) / e2\<^sup>2
               < Z\<^sup>2 * expected_prevalence params * (1 - expected_prevalence params) / e1\<^sup>2"
proof -
  from conf obtain Z where Z: "confidence_levels (confidence_level params) = Some Z" "0 < Z"
    using confidence_levels_listed by blast
  define c where "c = Z\<^sup>2 * expected_prevalence params * (1 - expected_prevalence params)"
  have c: "0 < c"
    using Z prev by (simp add: c_def)
  have sq: "e1\<^sup>2 < e2\<^sup>2" "0 < e1\<^sup>2" "0 < e2\<^sup>2"
    using marg by (simp_all add: power_strict_mono)
  have b1: "calculate_base_sample (params\<lparr>margin_error := e1\<rparr>) = Inr (c / e1\<^sup>2)"
    using Z sq marg by (simp add: calculate_base_sample_def py_truediv_def c_def)
  have b2: "calculate_base_sample (params\<lparr>margin_error := e2\<rparr>) = Inr (c / e2\<^sup>2)"
    using Z sq marg by (simp add: calculate_base_sample_def py_truediv_def c_def)
  have "c / e2\<^sup>2 < c / e1\<^sup>2"
    using sq c by (simp add: divide_strict_left_mono)
  with b1 b2 Z(1) show ?thesis
    unfolding c_def by blast
qed

text \<open>
  In binary64 it is not strict, and not always computed. On the example, the margin
  \<^verbatim>\<open>0.95\<close> and the next float above it give one and the same base size, the float
  \<open>4792528622854985 / 2\<^sup>5\<^sup>2\<close> (about 1.0641551246537395); the squares taken here are the
  correctly rounded ones. And the square of the margin \<open>2\<^sup>-\<^sup>6\<^sup>0\<^sup>0\<close> underflows to zero, so that
  the division raises.
\<close>

theorem base_sample_f64_ties:
  "is_f64 margin_095 \<and> is_f64 margin_095_next
   \<and> 0 < margin_095 \<and> margin_095 < margin_095_next \<and> margin_095_next < 1
   \<and> calculate_base_sample_f64 f64_square (example_parameters\<lparr>margin_error := margin_095\<rparr>)
       = Inr (Finite (4792528622854985 / 2 ^ 52))
   \<and> calculate_base_sample_f64 f64_square
         (example_parameters\<lparr>margin_error := margin_095_next\<rparr>)
       = Inr (Finite (4792528622854985 / 2 ^ 52))
   \<and> is_f64 (1 / 2 ^ 600) \<and> (0::real) < 1 / 2 ^ 600 \<and> (1 / 2 ^ 600 :: real) < 1
   \<and> calculate_base_sample_f64 f64_square (example_parameters\<lparr>margin_error := 1 / 2 ^ 600\<rparr>)
       = Inl ZeroDivisionError"
proof -
  have order: "0 < margin_095" "margin_095 < margin_095_next" "margin_095_next < 1"
    by (simp_all add: margin_095_def margin_095_next_def)
  have tiny: "(0::real) < 1 / 2 ^ 600" "(1 / 2 ^ 600 :: real) < 1"
    by simp_all
  from order tiny is_f64_margin_095 is_f64_margin_095_next is_f64_margin_tiny
    base_sample_f64_at_095 base_sample_f64_at_095_next base_sample_f64_at_tiny
  show ?thesis
    by (intro conjI)
qed

text \<open>
  Claim C8, as amended. Take a square that never decreases on floats (the correctly rounded
  one is such), a confidence level of 90, 95 or 99, a float prevalence strictly between 0
  and 1, and two float margins \<open>0 < e1 < e2 < 1\<close>, the square of \<open>e1\<close> not underflowing to
  zero. Then the base sample size is computed at both margins: it is the rounded quotient
  of \<open>c\<close>, the rounded product of the squared z-score, \<open>p\<close> and the rounded \<open>1 - p\<close>, by the
  squared margin; and the size at \<open>e2\<close> is at most the size at \<open>e1\<close>.
\<close>

theorem base_sample_f64_nonincreasing:
  assumes sq: "monotone_square square"
    and conf: "confidence_level params \<in> {90, 95, 99}"
    and prev: "is_f64 (expected_prevalence params)"
      "0 < expected_prevalence params" "expected_prevalence params < 1"
    and marg: "is_f64 e1" "is_f64 e2" "0 < e1" "e1 < e2" "e2 < 1"
    and nz: "square (Finite e1) \<noteq> Inr (Finite 0)"
  shows "\<exists>Z zz c a b.
      confidence_levels_f64 (confidence_level params) = Some Z
      \<and> square Z = Inr (Finite zz)
      \<and> f64_mul (f64_mul (Finite zz) (Finite (expected_prevalence params)))
           (f64_sub (Finite 1) (Finite (expected_prevalence params))) = Finite c
      \<and> square (Finite e1) = Inr (Finite a) \<and> square (Finite e2) = Inr (Finite b)
      \<and> calculate_base_sample_f64 square (params\<lparr>margin_error := e1\<rparr>)
           = Inr (f64_round (c / a))
      \<and> calculate_base_sample_f64 square (params\<lparr>margin_error := e2\<rparr>)
           = Inr (f64_round (c / b))
      \<and> f64_le (f64_round (c / b)) (f64_round (c / a))"
proof -
  let ?p = "expected_prevalence params"
  from sq have fin: "\<And>x. is_f64 x \<Longrightarrow> 0 \<le> x \<Longrightarrow> x \<le> 4 \<Longrightarrow>
      \<exists>v. square (Finite x) = Inr (Finite v) \<and> 0 \<le> v \<and> v \<le> 16"
    and mono: "\<And>x y v w. is_f64 x \<Longrightarrow> is_f64 y \<Longrightarrow> 0 \<le> x \<Longrightarrow> x \<le> y \<Longrightarrow>
      square (Finite x) = Inr (Finite v) \<Longrightarrow> square (Finite y) = Inr (Finite w) \<Longrightarrow> v \<le> w"
    unfolding monotone_square_def by blast+
  from conf obtain Z where Z: "confidence_levels_f64 (confidence_level params) = Some (Finite Z)"
      "is_f64 Z" "0 \<le> Z" "Z \<le> 4"
    using confidence_levels_f64_listed by blast
  from fin [OF Z(2,3,4)] obtain zz where zz: "square (Finite Z) = Inr (Finite zz)"
      "0 \<le> zz" "zz \<le> 16"
    by blast
  from f64_mul_between [of zz ?p] zz prev obtain t2
    where t2: "f64_mul (Finite zz) (Finite ?p) = Finite t2" "0 \<le> t2" "t2 \<le> 16"
    by auto
  from one_minus_rate [of ?p] prev obtain t3
    where t3: "f64_round (1 - ?p) = Finite t3" "0 < t3" "t3 \<le> 1"
    by auto
  from f64_mul_between [of t2 t3] t2 t3 obtain c
    where c: "f64_mul (Finite t2) (Finite t3) = Finite c" "0 \<le> c" "c \<le> 16"
    by auto
  from fin [of e1] marg obtain a where a: "square (Finite e1) = Inr (Finite a)" "0 \<le> a"
    by auto
  from fin [of e2] marg obtain b where b: "square (Finite e2) = Inr (Finite b)" "0 \<le> b"
    by auto
  have ab: "a \<le> b"
    using mono [OF marg(1,2) _ _ a(1) b(1)] marg by simp
  have apos: "0 < a"
    using a nz by (cases "a = 0") simp_all
  then have bpos: "0 < b"
    using ab by simp
  have num: "f64_mul (f64_mul (Finite zz) (Finite ?p)) (f64_sub (Finite 1) (Finite ?p))
      = Finite c"
    using t2 t3 c by simp
  have r1: "calculate_base_sample_f64 square (params\<lparr>margin_error := e1\<rparr>)
      = Inr (f64_round (c / a))"
    using Z zz a apos num by (simp add: calculate_base_sample_f64_def)
  have r2: "calculate_base_sample_f64 square (params\<lparr>margin_error := e2\<rparr>)
      = Inr (f64_round (c / b))"
    using Z zz b bpos num by (simp add: calculate_base_sample_f64_def)
  have "c / b \<le> c / a"
    using ab apos c by (intro divide_left_mono) simp_all
  moreover have "0 \<le> c / b"
    using c bpos by simp
  ultimately have "f64_le (f64_round (c / b)) (f64_round (c / a))"
    by (intro f64_round_mono)
  with Z zz num a b r1 r2 show ?thesis
    by blast
qed

theorem base_sample_f64_nonincreasing_witness:
  "monotone_square f64_square
   \<and> confidence_level example_parameters \<in> {90, 95, 99}
   \<and> is_f64 (expected_prevalence example_parameters)
   \<and> 0 < expected_prevalence example_parameters \<and> expected_prevalence example_parameters < 1
   \<and> is_f64 (1 / 4) \<and> is_f64 (1 / 2) \<and> (0::real) < 1 / 4 \<and> (1 / 4 :: real) < 1 / 2
   \<and> (1 / 2 :: real) < 1
   \<and> f64_square (Finite (1 / 4)) \<noteq> Inr (Finite 0)
   \<and> (\<exists>Z zz c a b.
        confidence_levels_f64 (confidence_level example_parameters) = Some Z
        \<and> f64_square Z = Inr (Finite zz)
        \<and> f64_mul (f64_mul (Finite zz) (Finite (expected_prevalence example_parameters)))
             (f64_sub (Finite 1) (Finite (expected_prevalence example_parameters))) = Finite c
        \<and> f64_square (Finite (1 / 4)) = Inr (Finite a)
        \<and> f64_square (Finite (1 / 2)) = Inr (Finite b)
        \<and> calculate_base_sample_f64 f64_square (example_parameters\<lparr>margin_error := 1 / 4\<rparr>)
             = Inr (f64_round (c / a))
        \<and> calculate_base_sample_f64 f64_square (example_parameters\<lparr>margin_error := 1 / 2\<rparr>)
             = Inr (f64_round (c / b))
        \<and> f64_le (f64_round (c / b)) (f64_round (c / a)))"
proof -
  have nz: "f64_square (Finite (1 / 4)) \<noteq> Inr (Finite 0)"
    using f64_square_finite [of "1 / 4" "1 / 16"] by (simp add: is_f64_sixteenth)
  have p: "is_f64 (expected_prevalence example_parameters)"
    by (simp add: example_fields is_f64_half)
  show ?thesis
    using base_sample_f64_nonincreasing [of f64_square example_parameters "1 / 4" "1 / 2"]
      monotone_f64_square nz p
    by (simp add: example_fields is_f64_half is_f64_quarter)
qed

text \<open>
  In exact arithmetic the inflated size is at least the corrected size and strictly
  increasing in the rate.
\<close>

lemma inflation_exact_monotone:
  "(0 \<le> n_fpc \<and> 0 \<le> r \<and> r < 1 \<longrightarrow>
      (\<exists>final_n. inflate_non_response n_fpc r = Inr final_n \<and> final_n = n_fpc / (1 - r)
         \<and> n_fpc \<le> final_n))
   \<and> (0 < n_fpc \<and> 0 \<le> r1 \<and> r1 < r2 \<and> r2 < 1 \<longrightarrow>
      (\<exists>f1 f2. inflate_non_response n_fpc r1 = Inr f1 \<and> inflate_non_response n_fpc r2 = Inr f2
         \<and> f1 < f2))"
proof (intro conjI impI)
  assume h: "0 \<le> n_fpc \<and> 0 \<le> r \<and> r < 1"
  then have "n_fpc * (1 - r) \<le> n_fpc * 1"
    by (intro mult_left_mono) simp_all
  with h have "n_fpc \<le> n_fpc / (1 - r)"
    by (simp add: pos_le_divide_eq)
  with h show "\<exists>final_n. inflate_non_response n_fpc r = Inr final_n
      \<and> final_n = n_fpc / (1 - r) \<and> n_fpc \<le> final_n"
    by (simp add: inflate_non_response_def py_truediv_def)
next
  assume h: "0 < n_fpc \<and> 0 \<le> r1 \<and> r1 < r2 \<and> r2 < 1"
  then have "n_fpc / (1 - r1) < n_fpc / (1 - r2)"
    by (intro divide_strict_left_mono) simp_all
  with h show "\<exists>f1 f2. inflate_non_response n_fpc r1 = Inr f1
      \<and> inflate_non_response n_fpc r2 = Inr f2 \<and> f1 < f2"
    by (simp add: inflate_non_response_def py_truediv_def)
qed

text \<open>
  In binary64 two different rates can give the same size: with a corrected size of 900,
  the rates 0 and \<open>2\<^sup>-\<^sup>6\<^sup>0\<close> both give 900, since \<open>1 - 2\<^sup>-\<^sup>6\<^sup>0\<close> rounds to 1.
\<close>

theorem inflation_f64_ties:
  "is_f64 900 \<and> is_f64 0 \<and> is_f64 (1 / 2 ^ 60)
   \<and> (0::real) < 1 / 2 ^ 60 \<and> (1 / 2 ^ 60 :: real) < 1
   \<and> inflate_non_response_f64 (Finite 900) (Finite 0) = Inr (Finite 900)
   \<and> inflate_non_response_f64 (Finite 900) (Finite (1 / 2 ^ 60)) = Inr (Finite 900)"
proof -
  have one: "f64_round 1 = Finite 1"
    using is_f64_1 by (simp add: is_f64_def)
  have n: "f64_round 900 = Finite 900"
    using is_f64_900 by (simp add: is_f64_def)
  have at_zero: "inflate_non_response_f64 (Finite 900) (Finite 0) = Inr (Finite 900)"
    by (simp add: inflate_non_response_f64_def one n)
  have at_tiny: "inflate_non_response_f64 (Finite 900) (Finite (1 / 2 ^ 60)) = Inr (Finite 900)"
    unfolding inflate_non_response_f64_def f64_sub.simps round_one_minus_tiny
    by (simp add: n)
  have "(0::real) < 1 / 2 ^ 60" "(1 / 2 ^ 60 :: real) < 1"
    by simp_all
  with at_zero at_tiny is_f64_900 is_f64_0 is_f64_tiny show ?thesis
    by (intro conjI)
qed

text \<open>
  Claim C9, as amended. For every float \<open>n_fpc \<ge> 0\<close> and every float rate \<open>r\<close> in
  \<open>[0, 1)\<close> the inflation succeeds: the rounded \<open>1 - r\<close> is a float \<open>d\<close> with
  \<open>0 < d \<le> 1\<close>, the result is the rounded \<open>n_fpc / d\<close>, and that is at least \<open>n_fpc\<close>.
  It never decreases in the rate: for float rates \<open>r1 \<le> r2\<close> in \<open>[0, 1)\<close> the size at
  \<open>r1\<close> is at most the size at \<open>r2\<close>. An infinite corrected size stays infinite.
\<close>

theorem inflation_f64_monotone:
  "(is_f64 n_fpc \<and> 0 \<le> n_fpc \<and> is_f64 r \<and> 0 \<le> r \<and> r < 1 \<longrightarrow>
      (\<exists>d. f64_sub (Finite 1) (Finite r) = Finite d \<and> 0 < d \<and> d \<le> 1
         \<and> inflate_non_response_f64 (Finite n_fpc) (Finite r) = Inr (f64_round (n_fpc / d))
         \<and> f64_le (Finite n_fpc) (f64_round (n_fpc / d))))
   \<and> (0 \<le> n_fpc \<and> is_f64 r1 \<and> is_f64 r2 \<and> 0 \<le> r1 \<and> r1 \<le> r2 \<and> r2 < 1 \<longrightarrow>
      (\<exists>f1 f2. inflate_non_response_f64 (Finite n_fpc) (Finite r1) = Inr f1
         \<and> inflate_non_response_f64 (Finite n_fpc) (Finite r2) = Inr f2
         \<and> f64_le f1 f2))
   \<and> (is_f64 r \<and> 0 \<le> r \<and> r < 1 \<longrightarrow>
      inflate_non_response_f64 PosInf (Finite r) = Inr PosInf)"
proof (intro conjI impI)
  assume h: "is_f64 n_fpc \<and> 0 \<le> n_fpc \<and> is_f64 r \<and> 0 \<le> r \<and> r < 1"
  then obtain d where d: "f64_round (1 - r) = Finite d" "0 < d" "d \<le> 1"
    using one_minus_rate by blast
  have "n_fpc * d \<le> n_fpc * 1"
    using h d by (intro mult_left_mono) simp_all
  then have "n_fpc \<le> n_fpc / d"
    using d by (simp add: pos_le_divide_eq)
  then have "f64_le (f64_round n_fpc) (f64_round (n_fpc / d))"
    using h by (intro f64_round_mono) simp_all
  then have "f64_le (Finite n_fpc) (f64_round (n_fpc / d))"
    using h by (simp add: is_f64_def)
  with d show "\<exists>d. f64_sub (Finite 1) (Finite r) = Finite d \<and> 0 < d \<and> d \<le> 1
      \<and> inflate_non_response_f64 (Finite n_fpc) (Finite r) = Inr (f64_round (n_fpc / d))
      \<and> f64_le (Finite n_fpc) (f64_round (n_fpc / d))"
    by (simp add: inflate_non_response_f64_def)
next
  assume h: "0 \<le> n_fpc \<and> is_f64 r1 \<and> is_f64 r2 \<and> 0 \<le> r1 \<and> r1 \<le> r2 \<and> r2 < 1"
  then obtain d1 where d1: "f64_round (1 - r1) = Finite d1" "0 < d1" "d1 \<le> 1"
    using one_minus_rate [of r1] by auto
  from h obtain d2 where d2: "f64_round (1 - r2) = Finite d2" "0 < d2" "d2 \<le> 1"
    using one_minus_rate [of r2] by auto
  have "f64_le (f64_round (1 - r2)) (f64_round (1 - r1))"
    using h by (intro f64_round_mono) simp_all
  then have "d2 \<le> d1"
    using d1 d2 by simp
  then have "n_fpc / d1 \<le> n_fpc / d2"
    using h d1 d2 by (intro divide_left_mono) simp_all
  moreover have "0 \<le> n_fpc / d1"
    using h d1 by simp
  ultimately have "f64_le (f64_round (n_fpc / d1)) (f64_round (n_fpc / d2))"
    by (intro f64_round_mono)
  with d1 d2 show "\<exists>f1 f2. inflate_non_response_f64 (Finite n_fpc) (Finite r1) = Inr f1
      \<and> inflate_non_response_f64 (Finite n_fpc) (Finite r2) = Inr f2 \<and> f64_le f1 f2"
    by (simp add: inflate_non_response_f64_def)
next
  assume "is_f64 r \<and> 0 \<le> r \<and> r < 1"
  then obtain d where "f64_round (1 - r) = Finite d" "0 < d"
    using one_minus_rate by blast
  then show "inflate_non_response_f64 PosInf (Finite r) = Inr PosInf"
    by (simp add: inflate_non_response_f64_def)
qed

theorem inflation_f64_monotone_witness:
  "(is_f64 900 \<and> (0::real) \<le> 900 \<and> is_f64 (1 / 2) \<and> (0::real) \<le> 1 / 2
      \<and> (1 / 2 :: real) < 1)
   \<and> (\<exists>d. f64_sub (Finite 1) (Finite (1 / 2)) = Finite d \<and> 0 < d \<and> d \<le> 1
         \<and> inflate_non_response_f64 (Finite 900) (Finite (1 / 2)) = Inr (f64_round (900 / d))
         \<and> f64_le (Finite 900) (f64_round (900 / d)))
   \<and> (is_f64 (1 / 4) \<and> (0::real) \<le> 1 / 4 \<and> (1 / 4 :: real) \<le> 1 / 2)
   \<and> (\<exists>f1 f2. inflate_non_response_f64 (Finite 900) (Finite (1 / 4)) = Inr f1
         \<and> inflate_non_response_f64 (Finite 900) (Finite (1 / 2)) = Inr f2
         \<and> f64_le f1 f2)
   \<and> inflate_non_response_f64 PosInf (Finite (1 / 2)) = Inr PosInf"
  using inflation_f64_monotone [of 900 "1 / 2" "1 / 4" "1 / 2"]
  by (simp add: is_f64_900 is_f64_half is_f64_quarter)

text \<open>
  The correction can enlarge a design size below 1: half a unit in a population of one
  becomes a whole unit.
\<close>

theorem fpc_exceeds_small_design:
  "apply_fpc (1 / 2) (Some 1) = Inr 1 \<and> \<not> (1 \<le> (1 / 2 :: real))"
  by (simp add: apply_fpc_def truthy_int_def py_truediv_def)

text \<open>
  Claim C6, as amended. For every positive population \<open>N\<close> and every design size
  \<open>n \<ge> 1\<close> the correction succeeds, gives \<open>n / (1 + (n - 1) / N)\<close>, and that is at most
  \<open>n\<close>. For every design size \<open>n\<close> the corrected size approaches \<open>n\<close> as the population
  grows: within any \<open>\<epsilon> > 0\<close> of \<open>n\<close> from some population on, where the correction is also
  defined. The correction is skipped when the population is absent or zero.
\<close>

theorem apply_fpc_properties:
  "(0 < N \<and> 1 \<le> n \<longrightarrow>
      (\<exists>v. apply_fpc n (Some N) = Inr v \<and> v = n / (1 + (n - 1) / of_int N) \<and> v \<le> n))
   \<and> (\<forall>\<epsilon>>0. \<exists>K. \<forall>k\<ge>K. \<exists>v. apply_fpc n (Some (int k)) = Inr v \<and> \<bar>v - n\<bar> < \<epsilon>)
   \<and> apply_fpc n None = Inr n \<and> apply_fpc n (Some 0) = Inr n"
proof (intro conjI impI allI)
  assume h: "0 < N \<and> 1 \<le> n"
  then have "0 \<le> (n - 1) / of_int N"
    by simp
  then have "1 + (n - 1) / of_int N \<noteq> 0"
    by linarith
  with h show "\<exists>v. apply_fpc n (Some N) = Inr v \<and> v = n / (1 + (n - 1) / of_int N) \<and> v \<le> n"
    by (simp add: apply_fpc_positive fpc_le)
next
  fix \<epsilon> :: real
  assume "0 < \<epsilon>"
  then obtain K1 where K1: "\<forall>k\<ge>K1. \<bar>n / (1 + (n - 1) / of_nat k) - n\<bar> < \<epsilon>"
    using fpc_limit [of n] by (auto simp: lim_sequentially dist_real_def)
  obtain K2 where K2: "\<forall>k\<ge>K2. 0 < int k \<and> 1 + (n - 1) / of_int (int k) \<noteq> 0"
    using fpc_eventually_defined by blast
  have "\<exists>v. apply_fpc n (Some (int k)) = Inr v \<and> \<bar>v - n\<bar> < \<epsilon>" if "max K1 K2 \<le> k" for k
  proof -
    from that K2 have "apply_fpc n (Some (int k)) = Inr (n / (1 + (n - 1) / of_int (int k)))"
      by (intro apply_fpc_positive) simp_all
    moreover from that K1 have "\<bar>n / (1 + (n - 1) / of_int (int k)) - n\<bar> < \<epsilon>"
      by simp
    ultimately show ?thesis by simp
  qed
  then show "\<exists>K. \<forall>k\<ge>K. \<exists>v. apply_fpc n (Some (int k)) = Inr v \<and> \<bar>v - n\<bar> < \<epsilon>"
    by blast
qed (simp_all add: apply_fpc_skipped)

theorem apply_fpc_properties_witness:
  "(0::int) < 15000 \<and> (1::real) \<le> 2
   \<and> (\<exists>v. apply_fpc 2 (Some 15000) = Inr v \<and> v = 2 / (1 + (2 - 1) / of_int 15000) \<and> v \<le> 2)
   \<and> (0::real) < 1 / 100
   \<and> (\<exists>k v. apply_fpc 2 (Some (int k)) = Inr v \<and> \<bar>v - 2\<bar> < 1 / 100)
   \<and> apply_fpc 2 None = Inr 2 \<and> apply_fpc 2 (Some 0) = Inr 2"
proof -
  note t = apply_fpc_properties [of 15000 2]
  from t have bound:
    "\<exists>v. apply_fpc 2 (Some 15000) = Inr v \<and> v = 2 / (1 + (2 - 1) / of_int 15000) \<and> v \<le> 2"
    by simp
  from t have "\<forall>\<epsilon>>0. \<exists>K. \<forall>k\<ge>K. \<exists>v. apply_fpc 2 (Some (int k)) = Inr v \<and> \<bar>v - 2\<bar> < \<epsilon>"
    by (elim conjE)
  then obtain K where "\<forall>k\<ge>K. \<exists>v. apply_fpc 2 (Some (int k)) = Inr v \<and> \<bar>v - 2\<bar> < 1 / 100"
    by (elim allE [of _ "1 / 100"]) auto
  then have near: "\<exists>k v. apply_fpc 2 (Some (int k)) = Inr v \<and> \<bar>v - 2\<bar> < 1 / 100"
    by blast
  from t have skip: "apply_fpc 2 None = Inr 2" "apply_fpc 2 (Some 0) = Inr 2"
    by simp_all
  from bound near skip show ?thesis
    by simp
qed

section \<open>Resolving the optional parameters\<close>

text \<open>
  Claim C4, on the code. An explicitly supplied correlation of 0 is falsy for the \<^verbatim>\<open>or\<close> that
  resolves it, so the profile's default of 0.15 is used and reported: on the example with
  \<^verbatim>\<open>icc=0.0\<close> the design effect is 4.6 and the adjusted size 1768, where the base size is
  385.
\<close>

theorem explicit_zero_icc_takes_profile_default:
  "calculate_sample solve_power builtin_profiles (example_parameters\<lparr>icc := Some 0\<rparr>) =
     Inr \<lparr> base_sample_size = 385, design_effect = 23 / 5, icc_used = 3 / 20,
           cluster_size = 25, adjusted_sample_size = 1768, final_sample_size = 1757,
           power_sample_size = None, effective_sample_size = 385 \<rparr>"
  using annual_agri_run [where p = "example_parameters\<lparr>icc := Some 0\<rparr>"
      and solve_power = solve_power and power_sample = None
      and final_n = "11044600000 / 6287301"]
  by (simp add: example_fields inflate_tenth power_analysis_absent truthy_float_simps)

text \<open>
  With \<^verbatim>\<open>alpha\<close> and \<^verbatim>\<open>power\<close> given and no effect size, the entry point raises nothing: it
  returns the design-based figures and no power-based size.
\<close>

theorem power_triple_partial_returns_result:
  "calculate_sample (constant_solver 64) builtin_profiles
     (example_parameters\<lparr>effect_size := None, alpha := 1 / 100, power_target := 9 / 10\<rparr>) =
     Inr \<lparr> base_sample_size = 385, design_effect = 23 / 5, icc_used = 3 / 20,
           cluster_size = 25, adjusted_sample_size = 1768, final_sample_size = 1757,
           power_sample_size = None, effective_sample_size = 385 \<rparr>"
  using annual_agri_run [where
      p = "example_parameters\<lparr>effect_size := None, alpha := 1 / 100, power_target := 9 / 10\<rparr>"
      and solve_power = "constant_solver 64" and power_sample = None
      and final_n = "11044600000 / 6287301"]
  by (simp add: example_fields inflate_tenth power_analysis_absent truthy_float_simps)

text \<open>
  Claim C3, as amended. \<^verbatim>\<open>alpha\<close> and \<^verbatim>\<open>power\<close> always hold a value, so only the effect
  size decides. Without an effect size the two are ignored, whatever they are: the entry
  point returns what it returns for any other pair, and a result has no power-based size.
  With a non-zero effect size for which the solver answers a non-zero \<open>v\<close>, a result has the
  power-based size \<open>\<lceil>v\<rceil>\<close>.
\<close>

theorem power_sample_size_rule:
  "(effect_size params = None \<longrightarrow>
      calculate_sample solve_power survey_profiles (params\<lparr>alpha := a, power_target := w\<rparr>) =
      calculate_sample solve_power survey_profiles params)
   \<and> (calculate_sample solve_power survey_profiles params = Inr r \<longrightarrow>
        (effect_size params = None \<longrightarrow> power_sample_size r = None)
        \<and> (effect_size params = Some es \<and> es \<noteq> 0
             \<and> solve_power es (alpha params) (power_target params) = Inr v \<and> v \<noteq> 0 \<longrightarrow>
           power_sample_size r = Some \<lceil>v\<rceil>))"
proof (intro conjI impI)
  assume "effect_size params = None"
  then show "calculate_sample solve_power survey_profiles
      (params\<lparr>alpha := a, power_target := w\<rparr>) =
      calculate_sample solve_power survey_profiles params"
    by (rule calculate_sample_ignores_defaults)
next
  assume "calculate_sample solve_power survey_profiles params = Inr r"
    and "effect_size params = None"
  then show "power_sample_size r = None"
    using calculate_sample_power [of solve_power survey_profiles params r None]
    by (simp add: power_analysis_absent truthy_float_simps)
next
  assume run: "calculate_sample solve_power survey_profiles params = Inr r"
    and h: "effect_size params = Some es \<and> es \<noteq> 0
      \<and> solve_power es (alpha params) (power_target params) = Inr v \<and> v \<noteq> 0"
  then have "power_analysis solve_power params = Inr (Some v)"
    by (simp add: power_analysis_present)
  with run h show "power_sample_size r = Some \<lceil>v\<rceil>"
    using calculate_sample_power [of solve_power survey_profiles params r "Some v"]
    by (simp add: truthy_float_simps)
qed

theorem power_sample_size_rule_witness:
  "effect_size example_parameters = None
   \<and> calculate_sample (constant_solver 64) builtin_profiles
        (example_parameters\<lparr>alpha := 1 / 100, power_target := 9 / 10\<rparr>) =
      calculate_sample (constant_solver 64) builtin_profiles example_parameters
   \<and> (\<exists>r. calculate_sample (constant_solver 64) builtin_profiles example_parameters = Inr r
          \<and> power_sample_size r = None)
   \<and> effect_size (example_parameters\<lparr>effect_size := Some (1 / 2)\<rparr>) = Some (1 / 2)
   \<and> constant_solver (6377 / 100) (1 / 2) (1 / 20) (4 / 5) = Inr (6377 / 100)
   \<and> (\<exists>r. calculate_sample (constant_solver (6377 / 100)) builtin_profiles
            (example_parameters\<lparr>effect_size := Some (1 / 2)\<rparr>) = Inr r
          \<and> power_sample_size r = Some 64)"
proof -
  let ?q = "example_parameters\<lparr>effect_size := Some (1 / 2)\<rparr>"
  obtain r1 where r1: "calculate_sample (constant_solver 64) builtin_profiles
      example_parameters = Inr r1"
    using annual_agri_run [where p = example_parameters and solve_power = "constant_solver 64"
        and power_sample = None and final_n = "11044600000 / 6287301"]
    by (simp add: example_fields inflate_tenth power_analysis_absent)
  have solved: "constant_solver (6377 / 100) (1 / 2) (alpha ?q) (power_target ?q)
      = Inr (6377 / 100)"
    by (simp add: constant_solver_def)
  have "power_analysis (constant_solver (6377 / 100)) ?q = Inr (Some (6377 / 100))"
    using solved by (intro power_analysis_present [where es = "1 / 2"]) simp_all
  then obtain r2 where r2: "calculate_sample (constant_solver (6377 / 100)) builtin_profiles ?q
      = Inr r2"
    using annual_agri_run [where p = ?q and solve_power = "constant_solver (6377 / 100)"
        and power_sample = "Some (6377 / 100)" and final_n = "11044600000 / 6287301"]
    by (simp add: example_fields inflate_tenth)
  note absent = power_sample_size_rule [where params = example_parameters
      and solve_power = "constant_solver 64" and survey_profiles = builtin_profiles
      and a = "1 / 100" and w = "9 / 10" and r = r1]
  note present = power_sample_size_rule [where params = ?q
      and solve_power = "constant_solver (6377 / 100)" and survey_profiles = builtin_profiles
      and r = r2 and es = "1 / 2" and v = "6377 / 100"]
  from absent r1 have a: "calculate_sample (constant_solver 64) builtin_profiles
        (example_parameters\<lparr>alpha := 1 / 100, power_target := 9 / 10\<rparr>) =
      calculate_sample (constant_solver 64) builtin_profiles example_parameters"
    "power_sample_size r1 = None"
    by (simp_all add: example_fields)
  from present r2 solved have b: "power_sample_size r2 = Some 64"
    by simp
  from a b r1 r2 show ?thesis
    by (simp add: example_fields constant_solver_def)
qed

end
